theory Spec2Isabelle
  imports Main
begin

section \<open>Python values\<close>

text \<open>
  The script \<^verbatim>\<open>connect_to_cityworks.py\<close> moves parsed JSON around: the responses of the
  Cityworks REST calls, the attributes and the geometry of ArcGIS features, and the
  configuration. One datatype stands for all of these values. JSON numbers are integers
  here: the script does no arithmetic on them, it passes them on or renders them.
  A parsed JSON object is an association list read with \<open>map_of\<close>.
\<close>

datatype json =
    JNull
  | JBool bool
  | JInt int
  | JStr string
  | JArr "json list"
  | JObj "(string \<times> json) list"

text \<open>
  Exceptions are values. Each constructor carries the text that \<^verbatim>\<open>str(error)\<close> gives;
  \<open>Exception\<close> stands for every other failure of a collaborator (network, file system,
  the ArcGIS client).
\<close>

datatype exn =
    KeyError string
  | TypeError string
  | AttributeError string
  | ValueError string
  | IndexError string
  | Exception string

fun exn_str :: "exn \<Rightarrow> string" where
  "exn_str (KeyError m) = m"
| "exn_str (TypeError m) = m"
| "exn_str (AttributeError m) = m"
| "exn_str (ValueError m) = m"
| "exn_str (IndexError m) = m"
| "exn_str (Exception m) = m"

subsection \<open>Rendering: \<^verbatim>\<open>str\<close> and \<^verbatim>\<open>format\<close>\<close>

definition digit_char :: "nat \<Rightarrow> char" where
  "digit_char d = char_of (48 + d)"

fun show_nat :: "nat \<Rightarrow> string" where
  "show_nat n = (if n < 10 then [digit_char n] else show_nat (n div 10) @ [digit_char (n mod 10)])"

declare show_nat.simps [simp del]

definition show_int :: "int \<Rightarrow> string" where
  "show_int i = (if i < 0 then CHR ''-'' # show_nat (nat (- i)) else show_nat (nat i))"

definition quoted :: "string \<Rightarrow> string" where
  \<comment> \<open>\<^verbatim>\<open>repr\<close> of a string, without the escapes of quotes and control characters\<close>
  "quoted s = [CHR 0x27] @ s @ [CHR 0x27]"

fun join :: "string \<Rightarrow> string list \<Rightarrow> string" where
  "join sep [] = []"
| "join sep [x] = x"
| "join sep (x # y # ys) = x @ sep @ join sep (y # ys)"

primrec py_repr :: "json \<Rightarrow> string" where
  "py_repr JNull = ''None''"
| "py_repr (JBool b) = (if b then ''True'' else ''False'')"
| "py_repr (JInt i) = show_int i"
| "py_repr (JStr s) = quoted s"
| "py_repr (JArr xs) = ''['' @ join '', '' (map py_repr xs) @ '']''"
| "py_repr (JObj kvs) =
     ''{'' @ join '', '' (map (\<lambda>kv. quoted (fst kv) @ '': '' @ snd kv) (map (map_prod id py_repr) kvs)) @ ''}''"

definition py_str :: "json \<Rightarrow> string" where
  "py_str v = (case v of JStr s \<Rightarrow> s | _ \<Rightarrow> py_repr v)"

subsection \<open>String methods\<close>

text \<open>Characters are bytes, so \<^verbatim>\<open>upper\<close> and \<^verbatim>\<open>strip\<close> are the ASCII ones.\<close>

definition upper_char :: "char \<Rightarrow> char" where
  "upper_char c = (let n = (of_char c :: nat) in if 97 \<le> n \<and> n \<le> 122 then char_of (n - 32) else c)"

definition py_upper :: "string \<Rightarrow> string" where
  "py_upper s = map upper_char s"

definition is_space :: "char \<Rightarrow> bool" where
  "is_space c = (let n = (of_char c :: nat) in (9 \<le> n \<and> n \<le> 13) \<or> (28 \<le> n \<and> n \<le> 32))"

definition py_strip :: "string \<Rightarrow> string" where
  "py_strip s = rev (dropWhile is_space (rev (dropWhile is_space s)))"

fun starts_with :: "string \<Rightarrow> string \<Rightarrow> bool" where
  "starts_with [] s = True"
| "starts_with (p # ps) [] = False"
| "starts_with (p # ps) (c # cs) = (p = c \<and> starts_with ps cs)"

fun str_contains :: "string \<Rightarrow> string \<Rightarrow> bool" where
  \<comment> \<open>\<^verbatim>\<open>p in s\<close> for two strings\<close>
  "str_contains p [] = (p = [])"
| "str_contains p (c # cs) = (starts_with p (c # cs) \<or> str_contains p cs)"

fun split_on :: "char \<Rightarrow> string \<Rightarrow> string list" where
  \<comment> \<open>\<^verbatim>\<open>s.split(sep)\<close> for a one-character separator: never empty\<close>
  "split_on sep [] = [[]]"
| "split_on sep (c # cs) =
     (if c = sep then [] # split_on sep cs
      else (case split_on sep cs of [] \<Rightarrow> [[c]] | p # ps \<Rightarrow> (c # p) # ps))"

subsection \<open>Indexing, membership, iteration, \<^verbatim>\<open>int\<close>\<close>

definition not_subscriptable :: "string \<Rightarrow> exn" where
  "not_subscriptable ty = TypeError (quoted ty @ '' object is not subscriptable'')"

fun getitem :: "json \<Rightarrow> string \<Rightarrow> exn + json" where
  \<comment> \<open>\<^verbatim>\<open>v[k]\<close> with a string key\<close>
  "getitem (JObj kvs) k = (case map_of kvs k of None \<Rightarrow> Inl (KeyError (quoted k)) | Some v \<Rightarrow> Inr v)"
| "getitem (JStr s) k = Inl (TypeError ''string indices must be integers'')"
| "getitem (JArr xs) k = Inl (TypeError ''list indices must be integers or slices, not str'')"
| "getitem JNull k = Inl (not_subscriptable ''NoneType'')"
| "getitem (JBool b) k = Inl (not_subscriptable ''bool'')"
| "getitem (JInt i) k = Inl (not_subscriptable ''int'')"

definition lookup :: "(string \<rightharpoonup> json) \<Rightarrow> string \<Rightarrow> exn + json" where
  \<comment> \<open>\<^verbatim>\<open>d[k]\<close> on a dictionary\<close>
  "lookup d k = (case d k of None \<Rightarrow> Inl (KeyError (quoted k)) | Some v \<Rightarrow> Inr v)"

definition not_iterable :: "string \<Rightarrow> exn" where
  "not_iterable ty = TypeError (''argument of type '' @ quoted ty @ '' is not iterable'')"

fun py_in :: "string \<Rightarrow> json \<Rightarrow> exn + bool" where
  \<comment> \<open>\<^verbatim>\<open>p in v\<close> for a string \<open>p\<close>\<close>
  "py_in p (JStr s) = Inr (str_contains p s)"
| "py_in p (JArr xs) = Inr (JStr p \<in> set xs)"
| "py_in p (JObj kvs) = Inr (p \<in> fst ` set kvs)"
| "py_in p JNull = Inl (not_iterable ''NoneType'')"
| "py_in p (JBool b) = Inl (not_iterable ''bool'')"
| "py_in p (JInt i) = Inl (not_iterable ''int'')"

fun py_iter :: "json \<Rightarrow> exn + json list" where
  \<comment> \<open>the items a \<^verbatim>\<open>for\<close> loop visits\<close>
  "py_iter (JArr xs) = Inr xs"
| "py_iter (JStr s) = Inr (map (\<lambda>c. JStr [c]) s)"
| "py_iter (JObj kvs) = Inr (map (\<lambda>kv. JStr (fst kv)) kvs)"
| "py_iter JNull = Inl (TypeError ''NoneType object is not iterable'')"
| "py_iter (JBool b) = Inl (TypeError ''bool object is not iterable'')"
| "py_iter (JInt i) = Inl (TypeError ''int object is not iterable'')"

definition is_digit :: "char \<Rightarrow> bool" where
  "is_digit c = (let n = (of_char c :: nat) in 48 \<le> n \<and> n \<le> 57)"

fun parse_digits :: "nat \<Rightarrow> string \<Rightarrow> nat option" where
  \<comment> \<open>decimal digits, single underscores allowed between two digits\<close>
  "parse_digits acc [] = None"
| "parse_digits acc (c # cs) =
     (if is_digit c then
        (let acc' = 10 * acc + (of_char c - 48) in
         case cs of
           [] \<Rightarrow> Some acc'
         | d # ds \<Rightarrow> if d = CHR ''_'' then parse_digits acc' ds else parse_digits acc' cs)
      else None)"

definition int_of_str :: "string \<Rightarrow> exn + int" where
  "int_of_str s =
     (let t = py_strip s;
          bad = Inl (ValueError (''invalid literal for int() with base 10: '' @ quoted s)) in
      case t of
        [] \<Rightarrow> bad
      | c # cs \<Rightarrow>
          if c = CHR ''-'' then (case parse_digits 0 cs of None \<Rightarrow> bad | Some n \<Rightarrow> Inr (- int n))
          else if c = CHR ''+'' then (case parse_digits 0 cs of None \<Rightarrow> bad | Some n \<Rightarrow> Inr (int n))
          else (case parse_digits 0 t of None \<Rightarrow> bad | Some n \<Rightarrow> Inr (int n)))"

fun py_int :: "json \<Rightarrow> exn + int" where
  "py_int (JInt i) = Inr i"
| "py_int (JBool b) = Inr (if b then 1 else 0)"
| "py_int (JStr s) = int_of_str s"
| "py_int JNull = Inl (TypeError ''int() argument must be a string or a number, not NoneType'')"
| "py_int (JArr xs) = Inl (TypeError ''int() argument must be a string or a number, not list'')"
| "py_int (JObj kvs) = Inl (TypeError ''int() argument must be a string or a number, not dict'')"


definition str_upper :: "json \<Rightarrow> exn + string" where
  \<comment> \<open>\<^verbatim>\<open>v.upper()\<close>: only a string has the method\<close>
  "str_upper v = (case v of JStr s \<Rightarrow> Inr (py_upper s)
                  | _ \<Rightarrow> Inl (AttributeError ''object has no attribute upper''))"

definition str_strip :: "json \<Rightarrow> exn + string" where
  "str_strip v = (case v of JStr s \<Rightarrow> Inr (py_strip s)
                  | _ \<Rightarrow> Inl (AttributeError ''object has no attribute strip''))"

definition and_then :: "exn + 'a \<Rightarrow> ('a \<Rightarrow> exn + 'b) \<Rightarrow> exn + 'b" where
  \<comment> \<open>sequencing of two steps, the first of which may raise\<close>
  "and_then r f = (case r of Inl e \<Rightarrow> Inl e | Inr x \<Rightarrow> f x)"

definition nl :: string where
  "nl = [CHR 0x0A]"

section \<open>The two systems\<close>

subsection \<open>Cityworks\<close>

text \<open>
  Every Cityworks call sends the token and a JSON payload to one endpoint and parses the
  answer. A call is recorded by its endpoint and parameters. The server is a parameter of
  the model: a function from the calls made so far and the present call to the parsed
  answer, or to the exception that \<^verbatim>\<open>requests\<close> or \<^verbatim>\<open>json.loads\<close> raises.
\<close>

datatype cw_call =
    Authenticate string string
  | Preferences json
  | Problems json
  | Create json "string \<rightharpoonup> json"
  | AddRequestAttachment json json string
  | AddToRequest json "string \<rightharpoonup> json"

type_synonym cityworks_server = "cw_call list \<Rightarrow> cw_call \<Rightarrow> exn + json"

subsection \<open>ArcGIS\<close>

record feature =
  attributes :: "string \<rightharpoonup> json"
  geometry :: json

text \<open>
  A feature layer as the script sees it: its properties, its features, and the attachment
  manager's list and download. The features are the stored ones; a query returns copies,
  and only \<^verbatim>\<open>edit_features\<close> changes the store.
\<close>

record layer =
  objectIdField :: string
  relationships :: "json list"
  layer_name :: json
  features :: "feature list"
  attachment_list :: "json \<Rightarrow> json list"
  download :: "json \<Rightarrow> json \<Rightarrow> exn + string"

record env =
  cityworks :: cityworks_server
  portal_login :: "exn option"
  clock :: string
  project :: "json \<Rightarrow> json \<Rightarrow> json"

text \<open>
  The where clauses are built by \<^verbatim>\<open>"{}='{}'".format(field, value)\<close>: the service compares
  the field with the rendered literal. A null field, or a field the record lacks, matches
  nothing.
\<close>

definition sql_eq :: "json option \<Rightarrow> json \<Rightarrow> bool" where
  "sql_eq a v = (case a of None \<Rightarrow> False | Some x \<Rightarrow> x \<noteq> JNull \<and> py_str x = py_str v)"

definition query_eq :: "layer \<Rightarrow> string \<Rightarrow> json \<Rightarrow> feature list" where
  \<comment> \<open>\<^verbatim>\<open>lyr.query(where="fld='v'").features\<close>\<close>
  "query_eq lyr fld v = filter (\<lambda>f. sql_eq (attributes f fld) v) (features lyr)"

definition query_null :: "layer \<Rightarrow> string \<Rightarrow> feature list" where
  \<comment> \<open>\<^verbatim>\<open>lyr.query(where="fld IS NULL")\<close>\<close>
  "query_null lyr fld = filter (\<lambda>f. attributes f fld = Some JNull) (features lyr)"

definition reproject :: "env \<Rightarrow> json \<Rightarrow> feature \<Rightarrow> feature" where
  \<comment> \<open>the effect of \<^verbatim>\<open>out_sr\<close> on a returned feature\<close>
  "reproject e sr f = f\<lparr>geometry := project e sr (geometry f)\<rparr>"

text \<open>
  \<^verbatim>\<open>edit_features(updates=rows)\<close> replaces, for each row in turn, the stored feature with
  the row's object id by the row, and answers with one result per row. The script never
  passes \<^verbatim>\<open>adds\<close> or \<^verbatim>\<open>deletes\<close>.
\<close>

definition same_oid :: "string \<Rightarrow> feature \<Rightarrow> feature \<Rightarrow> bool" where
  "same_oid fld u f = (attributes u fld \<noteq> None \<and> attributes u fld = attributes f fld)"

definition apply_update :: "string \<Rightarrow> feature \<Rightarrow> feature list \<Rightarrow> feature list" where
  "apply_update fld u fs = map (\<lambda>f. if same_oid fld u f then u else f) fs"

definition update_result :: "layer \<Rightarrow> feature \<Rightarrow> json" where
  "update_result lyr u =
     JObj [(''objectId'', (case attributes u (objectIdField lyr) of None \<Rightarrow> JNull | Some v \<Rightarrow> v)),
           (''success'', JBool (\<exists>f \<in> set (features lyr). same_oid (objectIdField lyr) u f))]"

definition edit_features :: "layer \<Rightarrow> feature list \<Rightarrow> layer \<times> json" where
  "edit_features lyr updates =
     (lyr\<lparr>features := fold (apply_update (objectIdField lyr)) updates (features lyr)\<rparr>,
      JObj [(''addResults'', JArr []),
            (''updateResults'', JArr (map (update_result lyr) updates)),
            (''deleteResults'', JArr [])])"

section \<open>The state of a run\<close>

text \<open>
  The module globals (\<^verbatim>\<open>cw_token\<close>), the feature services, the Cityworks calls made so
  far, the log file and the console. \<^verbatim>\<open>log_to_file\<close> is the constant \<^verbatim>\<open>True\<close>, so
  every message of \<^verbatim>\<open>main\<close> goes to the log file; only the two unconditional
  \<^verbatim>\<open>print\<close> calls reach the console.
\<close>

record world =
  stores :: "string \<rightharpoonup> layer"
  cw_token :: json
  calls :: "cw_call list"
  log_file :: "string list"
  console :: "string list"

type_synonym 'a run = "world \<Rightarrow> (exn + 'a) \<times> world"

definition log_write :: "string \<Rightarrow> world \<Rightarrow> world" where
  "log_write line w = w\<lparr>log_file := log_file w @ [line]\<rparr>"

definition get_response :: "env \<Rightarrow> cw_call \<Rightarrow> json run" where
  "get_response e c w = (cityworks e (calls w) c, w\<lparr>calls := calls w @ [c]\<rparr>)"


section \<open>The script\<close>

subsection \<open>Configuration\<close>

text \<open>
  The \<^verbatim>\<open>event\<close> dictionary that \<^verbatim>\<open>main\<close> unpacks. \<^verbatim>\<open>fields.ids\<close> and
  \<^verbatim>\<open>fields.type\<close> are two-element lists read by index, and each entry of
  \<^verbatim>\<open>fields.layers\<close> and \<^verbatim>\<open>fields.tables\<close> is an (external field, source field)
  pair; they are pairs here.
\<close>

record config =
  cwUser :: string
  cwPwd :: string
  layers :: "string list"
  tables :: "string list"
  layerfields :: "(string \<times> string) list"
  tablefields :: "(string \<times> string) list"
  fc_flag :: string
  flag_on :: json
  flag_off :: json
  ids :: "string \<times> string"
  probtypes :: "string \<times> string"

subsection \<open>Cityworks client\<close>

definition get_cw_token :: "env \<Rightarrow> string \<Rightarrow> string \<Rightarrow> string run" where
  "get_cw_token e user pwd w =
     (case get_response e (Authenticate user pwd) w of
        (Inl ex, w1) \<Rightarrow> (Inl ex, w1)
      | (Inr response, w1) \<Rightarrow>
          (case getitem response ''Status'' of
             Inl ex \<Rightarrow> (Inl ex, w1)
           | Inr st \<Rightarrow>
               if st \<noteq> JInt 0 then
                 (case getitem response ''Message'' of
                    Inl ex \<Rightarrow> (Inl ex, w1)
                  | Inr m \<Rightarrow> (Inr (''error: '' @ py_str st @ '': '' @ py_str m), w1))
               else
                 (case and_then (getitem response ''Value'') (\<lambda>v. getitem v ''Token'') of
                    Inl ex \<Rightarrow> (Inl ex, w1)
                  | Inr t \<Rightarrow> (Inr ''success'', w1\<lparr>cw_token := t\<rparr>))))"

definition get_wkid :: "env \<Rightarrow> json run" where
  "get_wkid e w =
     (case get_response e (Preferences (cw_token w)) w of
        (Inl ex, w1) \<Rightarrow> (Inl ex, w1)
      | (Inr response, w1) \<Rightarrow>
          (case and_then (getitem response ''Value'') (\<lambda>v. getitem v ''SpatialReference'') of
             Inl (KeyError m) \<Rightarrow> (Inr (JStr ''error''), w1)
           | Inl ex \<Rightarrow> (Inl ex, w1)
           | Inr sr \<Rightarrow> (Inr sr, w1)))"

text \<open>
  \<^verbatim>\<open>get_problem_types\<close> returns the dictionary, or the string
  \<^verbatim>\<open>"error: " + str(error)\<close> when anything in its \<^verbatim>\<open>try\<close> block raises.
\<close>

datatype prob_types = ProbDict "string \<rightharpoonup> int" | ProbStr string

fun problem_values :: "json list \<Rightarrow> (string \<rightharpoonup> int) \<Rightarrow> exn + (string \<rightharpoonup> int)" where
  \<comment> \<open>the loop \<^verbatim>\<open>values[val["ProblemCode"].upper()] = int(val["ProblemSid"])\<close>;
      Python evaluates the right-hand side first\<close>
  "problem_values [] values = Inr values"
| "problem_values (val # vals) values =
     (case and_then (getitem val ''ProblemSid'') py_int of
        Inl ex \<Rightarrow> Inl ex
      | Inr sid \<Rightarrow>
          (case and_then (getitem val ''ProblemCode'') str_upper of
             Inl ex \<Rightarrow> Inl ex
           | Inr code \<Rightarrow> problem_values vals (values(code \<mapsto> sid))))"

definition get_problem_types :: "env \<Rightarrow> world \<Rightarrow> prob_types \<times> world" where
  "get_problem_types e w =
     (case get_response e (Problems (cw_token w)) w of
        (Inl ex, w1) \<Rightarrow> (ProbStr (''error: '' @ exn_str ex), w1)
      | (Inr response, w1) \<Rightarrow>
          (case and_then (and_then (getitem response ''Value'') py_iter)
                         (\<lambda>vals. problem_values vals Map.empty) of
             Inl ex \<Rightarrow> (ProbStr (''error: '' @ exn_str ex), w1)
           | Inr values \<Rightarrow> (ProbDict values, w1)))"

subsection \<open>Record mapper and submission: \<^verbatim>\<open>submit_to_cw\<close>\<close>

definition prob_lookup :: "prob_types \<Rightarrow> string \<Rightarrow> exn + int" where
  \<comment> \<open>\<^verbatim>\<open>prob_types[key]\<close>: a dictionary lookup, or an index into the error string\<close>
  "prob_lookup pt k =
     (case pt of
        ProbDict d \<Rightarrow> (case d k of None \<Rightarrow> Inl (KeyError (quoted k)) | Some sid \<Rightarrow> Inr sid)
      | ProbStr s \<Rightarrow> Inl (TypeError ''string indices must be integers''))"

definition warn_no_type :: "json \<Rightarrow> string" where
  "warn_no_type oid =
     ''WARNING: No problem type provided. Record '' @ py_str oid @ '' not exported.'' @ nl"

definition warn_not_found :: "json \<Rightarrow> json \<Rightarrow> string" where
  "warn_not_found v oid =
     ''WARNING: Problem type '' @ py_str v @ '' not found in Cityworks. Record '' @ py_str oid
       @ '' not exported.'' @ nl"

definition warn_missing :: "json \<Rightarrow> string \<Rightarrow> string" where
  "warn_missing oid fld =
     ''WARNING: Record '' @ py_str oid @ '' not exported due to missing value in field '' @ fld @ nl"

text \<open>
  Lines 105 to 115: the first \<^verbatim>\<open>try\<close> of \<^verbatim>\<open>submit_to_cw\<close>. The result is the
  problem-type id, or the warning string the function returns; an exception that no
  \<^verbatim>\<open>except\<close> clause catches, or that is raised inside a handler, leaves the function.
\<close>

definition problem_sid :: "prob_types \<Rightarrow> (string \<rightharpoonup> json) \<Rightarrow> string \<times> string \<Rightarrow> json \<Rightarrow> exn + (string + int)" where
  "problem_sid pt attrs typefields oid =
     (case and_then (and_then (lookup attrs (snd typefields)) str_upper) (prob_lookup pt) of
        Inr sid \<Rightarrow> Inr (Inr sid)
      | Inl (KeyError m) \<Rightarrow>
          (case lookup attrs (snd typefields) of
             Inl ex \<Rightarrow> Inl ex
           | Inr v \<Rightarrow>
               (case str_strip v of
                  Inl ex \<Rightarrow> Inl ex
                | Inr s \<Rightarrow> if s = [] then Inr (Inl (warn_no_type oid))
                           else Inr (Inl (warn_not_found v oid))))
      | Inl (AttributeError m) \<Rightarrow> Inr (Inl (warn_missing oid (snd typefields)))
      | Inl ex \<Rightarrow> Inl ex)"

fun copy_fields :: "(string \<times> string) list \<Rightarrow> (string \<rightharpoonup> json) \<Rightarrow> (string \<rightharpoonup> json) \<Rightarrow> exn + (string \<rightharpoonup> json)" where
  \<comment> \<open>\<^verbatim>\<open>for fieldset in fields: values[c_field] = str(attrs[a_field])\<close>\<close>
  "copy_fields [] attrs values = Inr values"
| "copy_fields (fieldset # flds) attrs values =
     (case lookup attrs (snd fieldset) of
        Inl ex \<Rightarrow> Inl ex
      | Inr v \<Rightarrow> copy_fields flds attrs (values(fst fieldset \<mapsto> JStr (py_str v))))"

definition build_values :: "feature \<Rightarrow> (string \<times> string) list \<Rightarrow> string \<times> string \<Rightarrow> int \<Rightarrow> exn + (string \<rightharpoonup> json)" where
  \<comment> \<open>lines 118 to 124\<close>
  "build_values row flds typefields prob_sid' =
     (case copy_fields flds (attributes row) Map.empty of
        Inl ex \<Rightarrow> Inl ex
      | Inr values \<Rightarrow>
          (case getitem (geometry row) ''x'' of
             Inl ex \<Rightarrow> Inl ex
           | Inr x \<Rightarrow>
               (case getitem (geometry row) ''y'' of
                  Inl ex \<Rightarrow> Inl ex
                | Inr y \<Rightarrow> Inr (values(''X'' \<mapsto> x, ''Y'' \<mapsto> y, fst typefields \<mapsto> JInt prob_sid')))))"

definition request_id :: "json \<Rightarrow> exn + json" where
  \<comment> \<open>lines 134 to 138: the request identifier, or the string \<^verbatim>\<open>"error"\<close> on a KeyError\<close>
  "request_id response =
     (case and_then (getitem response ''Value'') (\<lambda>v. getitem v ''RequestId'') of
        Inl (KeyError m) \<Rightarrow> Inr (JStr ''error'')
      | Inl ex \<Rightarrow> Inl ex
      | Inr rid \<Rightarrow> Inr rid)"

definition submit_to_cw :: "env \<Rightarrow> feature \<Rightarrow> prob_types \<Rightarrow> (string \<times> string) list \<Rightarrow> json \<Rightarrow> string \<times> string \<Rightarrow> json run" where
  "submit_to_cw e row pt flds oid typefields w =
     (case problem_sid pt (attributes row) typefields oid of
        Inl ex \<Rightarrow> (Inl ex, w)
      | Inr (Inl warning) \<Rightarrow> (Inr (JStr warning), w)
      | Inr (Inr sid) \<Rightarrow>
          (case build_values row flds typefields sid of
             Inl ex \<Rightarrow> (Inl ex, w)
           | Inr values \<Rightarrow>
               (case get_response e (Create (cw_token w) values) w of
                  (Inl ex, w1) \<Rightarrow> (Inl ex, w1)
                | (Inr response, w1) \<Rightarrow> (request_id response, w1))))"

subsection \<open>Attachments, comments, parents\<close>

definition copy_attachment :: "env \<Rightarrow> layer \<Rightarrow> json \<Rightarrow> json \<Rightarrow> json \<Rightarrow> json run" where
  \<comment> \<open>download, upload, parsed answer; the temporary file itself is not modelled\<close>
  "copy_attachment e lyr attachment oid requestid w =
     (case getitem attachment ''id'' of
        Inl ex \<Rightarrow> (Inl ex, w)
      | Inr aid \<Rightarrow>
          (case download lyr oid aid of
             Inl ex \<Rightarrow> (Inl ex, w)
           | Inr attpath \<Rightarrow> get_response e (AddRequestAttachment (cw_token w) requestid attpath) w))"

fun comment_values :: "(string \<times> string) list \<Rightarrow> (string \<rightharpoonup> json) \<Rightarrow> (string \<rightharpoonup> json) \<Rightarrow> exn + (string \<rightharpoonup> json)" where
  \<comment> \<open>\<^verbatim>\<open>for field in fields: values[field[0]] = record.attributes[field[1]]\<close>\<close>
  "comment_values [] attrs values = Inr values"
| "comment_values (field # flds) attrs values =
     (case lookup attrs (snd field) of
        Inl ex \<Rightarrow> Inl ex
      | Inr v \<Rightarrow> comment_values flds attrs (values(fst field \<mapsto> v)))"

definition copy_comments :: "env \<Rightarrow> feature \<Rightarrow> feature \<Rightarrow> (string \<times> string) list \<Rightarrow> string \<times> string \<Rightarrow> json run" where
  "copy_comments e record parent flds ids' w =
     (case lookup (attributes parent) (snd ids') of
        Inl ex \<Rightarrow> (Inl ex, w)
      | Inr pid \<Rightarrow>
          (case comment_values flds (attributes record) [fst ids' \<mapsto> pid] of
             Inl ex \<Rightarrow> (Inl ex, w)
           | Inr values \<Rightarrow> get_response e (AddToRequest (cw_token w) values) w))"

definition field_name :: "json \<Rightarrow> string" where
  \<comment> \<open>a field name read from the layer properties, as \<^verbatim>\<open>format\<close> renders it\<close>
  "field_name k = py_str k"

definition lookup_key :: "(string \<rightharpoonup> json) \<Rightarrow> json \<Rightarrow> exn + json" where
  \<comment> \<open>\<^verbatim>\<open>d[k]\<close> where the key is a parsed JSON value: the keys of \<open>d\<close> are strings\<close>
  "lookup_key d k = (case k of JStr s \<Rightarrow> lookup d s | _ \<Rightarrow> Inl (KeyError (py_repr k)))"

definition get_parent :: "layer \<Rightarrow> json \<Rightarrow> feature \<Rightarrow> json \<Rightarrow> exn + feature" where
  "get_parent lyr pkey_fld record fkey_fld =
     (case lookup_key (attributes record) fkey_fld of
        Inl ex \<Rightarrow> Inl ex
      | Inr fk \<Rightarrow>
          (case query_eq lyr (field_name pkey_fld) fk of
             [] \<Rightarrow> Inl (IndexError ''list index out of range'')
           | parent # others \<Rightarrow> Inr parent))"


subsection \<open>\<^verbatim>\<open>main\<close>: the source records of one layer\<close>

fun copy_attachments :: "env \<Rightarrow> layer \<Rightarrow> json list \<Rightarrow> json \<Rightarrow> exn + json \<Rightarrow> unit run" where
  \<comment> \<open>the attachment loop; the request id is the expression the call evaluates each time\<close>
  "copy_attachments e lyr [] oid requestid w = (Inr (), w)"
| "copy_attachments e lyr (attachment # rest) oid requestid w =
     (case requestid of
        Inl ex \<Rightarrow> (Inl ex, w)
      | Inr rid \<Rightarrow>
          (case copy_attachment e lyr attachment oid rid w of
             (Inl ex, w1) \<Rightarrow> (Inl ex, w1)
           | (Inr response, w1) \<Rightarrow>
               (case getitem response ''Status'' of
                  Inl ex \<Rightarrow> (Inl ex, w1)
                | Inr st \<Rightarrow>
                    if st \<noteq> JInt 0 then
                      (case getitem response ''ErrorMessages'' of
                         Inl ex \<Rightarrow> (Inl ex, w1)
                       | Inr msgs \<Rightarrow>
                           copy_attachments e lyr rest oid requestid
                             (log_write (''Error while copying attachment to Cityworks: '' @ py_str msgs @ nl) w1))
                    else copy_attachments e lyr rest oid requestid w1)))"

definition is_warning :: "json \<Rightarrow> bool" where
  \<comment> \<open>\<^verbatim>\<open>"WARNING" in requestid\<close>, with the TypeError of a number caught and passed\<close>
  "is_warning requestid = (case py_in ''WARNING'' requestid of Inl ex \<Rightarrow> False | Inr b \<Rightarrow> b)"

definition flag_row :: "config \<Rightarrow> feature \<Rightarrow> json \<Rightarrow> feature" where
  \<comment> \<open>lines 297 to 301: the two assignments on the freshly queried record\<close>
  "flag_row cfg row_orig requestid =
     row_orig\<lparr>attributes := (attributes row_orig)(fc_flag cfg \<mapsto> flag_off cfg, snd (ids cfg) \<mapsto> requestid)\<rparr>"

definition report_row :: "env \<Rightarrow> config \<Rightarrow> prob_types \<Rightarrow> layer \<Rightarrow> feature \<Rightarrow> feature list \<Rightarrow> feature list run" where
  \<comment> \<open>one pass of the loop of lines 264 to 303; the result is \<^verbatim>\<open>updated_rows\<close>\<close>
  "report_row e cfg pt lyr row updated_rows w =
     (case lookup (attributes row) (objectIdField lyr) of
        Inl ex \<Rightarrow> (Inl ex, w)
      | Inr oid \<Rightarrow>
          (case submit_to_cw e row pt (layerfields cfg) oid (probtypes cfg) w of
             (Inl ex, w1) \<Rightarrow> (Inl ex, w1)
           | (Inr requestid, w1) \<Rightarrow>
               if is_warning requestid then
                 (Inr updated_rows,
                  log_write (''Warning generated while copying record to Cityworks: '' @ py_str requestid @ nl) w1)
               else
                 (case copy_attachments e lyr (attachment_list lyr oid) oid (Inr requestid) w1 of
                    (Inl ex, w2) \<Rightarrow> (Inl ex, w2)
                  | (Inr u, w2) \<Rightarrow>
                      (case query_eq lyr (objectIdField lyr) oid of
                         [] \<Rightarrow> (Inl (IndexError ''list index out of range''), w2)
                       | row_orig # others \<Rightarrow>
                           (Inr (updated_rows @ [flag_row cfg row_orig requestid]), w2)))))"

fun report_rows :: "env \<Rightarrow> config \<Rightarrow> prob_types \<Rightarrow> layer \<Rightarrow> feature list \<Rightarrow> feature list \<Rightarrow> feature list run" where
  "report_rows e cfg pt lyr [] updated_rows w = (Inr updated_rows, w)"
| "report_rows e cfg pt lyr (row # rows) updated_rows w =
     (case report_row e cfg pt lyr row updated_rows w of
        (Inl ex, w1) \<Rightarrow> (Inl ex, w1)
      | (Inr updated_rows', w1) \<Rightarrow> report_rows e cfg pt lyr rows updated_rows' w1)"

definition flagged :: "config \<Rightarrow> feature \<Rightarrow> bool" where
  \<comment> \<open>the where clause of line 260\<close>
  "flagged cfg f = sql_eq (attributes f (fc_flag cfg)) (flag_on cfg)"

definition apply_edits :: "string \<Rightarrow> layer \<Rightarrow> feature list \<Rightarrow> world \<Rightarrow> layer \<times> world" where
  \<comment> \<open>\<^verbatim>\<open>if updated_rows: status = lyr.edit_features(updates=updated_rows)\<close> and its log line\<close>
  "apply_edits what lyr updated_rows w =
     (case updated_rows of
        [] \<Rightarrow> (lyr, w)
      | u # us \<Rightarrow>
          (case edit_features lyr updated_rows of
             (lyr', status) \<Rightarrow>
               (lyr', log_write (''Status of updates to ArcGIS '' @ what @ '': '' @ py_str status @ nl) w)))"

definition process_reports :: "env \<Rightarrow> config \<Rightarrow> json \<Rightarrow> prob_types \<Rightarrow> layer \<Rightarrow> layer run" where
  \<comment> \<open>lines 259 to 311: query, loop, batch write-back; the result is the layer afterwards\<close>
  "process_reports e cfg sr pt lyr w =
     (case report_rows e cfg pt lyr (map (reproject e sr) (query_eq lyr (fc_flag cfg) (flag_on cfg))) [] w of
        (Inl ex, w1) \<Rightarrow> (Inl ex, w1)
      | (Inr updated_rows, w1) \<Rightarrow>
          (case apply_edits ''layers'' lyr updated_rows w1 of (lyr', w2) \<Rightarrow> (Inr lyr', w2)))"

subsection \<open>\<^verbatim>\<open>main\<close>: the related records of one layer\<close>

definition first_key_field :: "layer \<Rightarrow> exn + json" where
  \<comment> \<open>\<^verbatim>\<open>properties.relationships[0]["keyField"]\<close>\<close>
  "first_key_field lyr =
     (case relationships lyr of
        [] \<Rightarrow> Inl (IndexError ''list index out of range'')
      | r # rs \<Rightarrow> getitem r ''keyField'')"

definition flag_record :: "config \<Rightarrow> feature \<Rightarrow> feature" where
  \<comment> \<open>line 344\<close>
  "flag_record cfg record = record\<lparr>attributes := (attributes record)(fc_flag cfg \<mapsto> flag_off cfg)\<rparr>"

definition related_row :: "env \<Rightarrow> config \<Rightarrow> layer \<Rightarrow> layer \<Rightarrow> json \<Rightarrow> json \<Rightarrow> feature \<Rightarrow> feature list \<Rightarrow> feature list run" where
  \<comment> \<open>one pass of the loop of lines 321 to 349; \<^verbatim>\<open>oid_fld\<close> is the source layer's\<close>
  "related_row e cfg lyr rellyr pkey_fld fkey_fld record updated_rows w =
     (case lookup (attributes record) (objectIdField lyr) of
        Inl ex \<Rightarrow> (Inl ex, w)
      | Inr rel_oid \<Rightarrow>
          (case get_parent lyr pkey_fld record fkey_fld of
             Inl ex \<Rightarrow> (Inl ex, w)
           | Inr parent \<Rightarrow>
               (case copy_attachments e rellyr (attachment_list rellyr rel_oid) rel_oid
                       (lookup (attributes parent) (snd (ids cfg))) w of
                  (Inl ex, w1) \<Rightarrow> (Inl ex, w1)
                | (Inr u, w1) \<Rightarrow>
                    (case copy_comments e record parent (tablefields cfg) (ids cfg) w1 of
                       (Inl ex, w2) \<Rightarrow> (Inl ex, w2)
                     | (Inr response, w2) \<Rightarrow>
                         (case getitem response ''Status'' of
                            Inl ex \<Rightarrow> (Inl ex, w2)
                          | Inr st \<Rightarrow>
                              if st \<noteq> JInt 0 then
                                (case getitem response ''ErrorMessages'' of
                                   Inl ex \<Rightarrow> (Inl ex, w2)
                                 | Inr msgs \<Rightarrow>
                                     (Inr updated_rows,
                                      log_write (''Error while copying comment to Cityworks: '' @ py_str msgs @ nl) w2))
                              else
                                (Inr (updated_rows @ [flag_record cfg record]),
                                 log_write (''Status of updates to Cityworks comments: '' @ py_str response @ nl) w2))))))"

fun related_rows :: "env \<Rightarrow> config \<Rightarrow> layer \<Rightarrow> layer \<Rightarrow> json \<Rightarrow> json \<Rightarrow> feature list \<Rightarrow> feature list \<Rightarrow> feature list run" where
  "related_rows e cfg lyr rellyr pkey_fld fkey_fld [] updated_rows w = (Inr updated_rows, w)"
| "related_rows e cfg lyr rellyr pkey_fld fkey_fld (record # records) updated_rows w =
     (case related_row e cfg lyr rellyr pkey_fld fkey_fld record updated_rows w of
        (Inl ex, w1) \<Rightarrow> (Inl ex, w1)
      | (Inr updated_rows', w1) \<Rightarrow> related_rows e cfg lyr rellyr pkey_fld fkey_fld records updated_rows' w1)"

definition process_related :: "env \<Rightarrow> config \<Rightarrow> layer \<Rightarrow> json \<Rightarrow> layer \<Rightarrow> layer run" where
  \<comment> \<open>lines 317 to 357, given the key field of line 316; the result is the related table afterwards\<close>
  "process_related e cfg lyr pkey_fld rellyr w =
     (case first_key_field rellyr of
        Inl ex \<Rightarrow> (Inl ex, w)
      | Inr fkey_fld \<Rightarrow>
          (case related_rows e cfg lyr rellyr pkey_fld fkey_fld (query_null rellyr (fc_flag cfg)) [] w of
             (Inl ex, w1) \<Rightarrow> (Inl ex, w1)
           | (Inr updated_rows, w1) \<Rightarrow>
               (case apply_edits ''comments'' rellyr updated_rows w1 of (rellyr', w2) \<Rightarrow> (Inr rellyr', w2))))"


subsection \<open>\<^verbatim>\<open>main\<close>: set-up, the layers, the whole run\<close>

definition open_layer :: "world \<Rightarrow> string \<Rightarrow> exn + layer" where
  \<comment> \<open>\<^verbatim>\<open>FeatureLayer(url, gis=gis)\<close> and the first read of its properties\<close>
  "open_layer w url =
     (case stores w url of
        None \<Rightarrow> Inl (Exception (''Invalid URL: '' @ url))
      | Some lyr \<Rightarrow> Inr lyr)"

fun find_reltable :: "string \<Rightarrow> string list \<Rightarrow> json list \<Rightarrow> exn + string" where
  \<comment> \<open>lines 249 to 257: the first relationship whose table URL is configured, else the empty string\<close>
  "find_reltable layer tbls [] = Inr []"
| "find_reltable layer tbls (relate # rest) =
     (case getitem relate ''relatedTableId'' of
        Inl ex \<Rightarrow> Inl ex
      | Inr tid \<Rightarrow>
          (let table_url = join ''/'' (butlast (split_on CHR ''/'' layer) @ [py_str tid]) in
           if table_url \<in> set tbls then Inr table_url else find_reltable layer tbls rest))"

definition setup_run :: "env \<Rightarrow> config \<Rightarrow> (json \<times> prob_types) run" where
  \<comment> \<open>lines 211 to 242: connect, token, spatial reference, problem types\<close>
  "setup_run e cfg w =
     (case portal_login e of
        Some ex \<Rightarrow> (Inl ex, w)
      | None \<Rightarrow>
          (case get_cw_token e (cwUser cfg) (cwPwd cfg) w of
             (Inl ex, w1) \<Rightarrow> (Inl ex, w1)
           | (Inr status, w1) \<Rightarrow>
               if str_contains ''error'' status then
                 (Inl (Exception (''Failed to get Cityworks token.  '' @ status)),
                  log_write (''Failed to get Cityworks token. '' @ status @ nl) w1)
               else
                 (case get_wkid e w1 of
                    (Inl ex, w2) \<Rightarrow> (Inl ex, w2)
                  | (Inr sr, w2) \<Rightarrow>
                      if sr = JStr ''error'' then
                        (Inl (Exception ''Spatial reference not defined''),
                         log_write (''Spatial reference not defined'' @ nl) w2)
                      else
                        (case get_problem_types e w2 of
                           (prob_types', w3) \<Rightarrow>
                             if (case prob_types' of ProbStr s \<Rightarrow> s = ''error'' | ProbDict d \<Rightarrow> False) then
                               (Inl (Exception ''Problem types not defined''),
                                log_write (''Problem types not defined'' @ nl) w3)
                             else (Inr (sr, prob_types'), w3)))))"

definition process_layer :: "env \<Rightarrow> config \<Rightarrow> json \<Rightarrow> prob_types \<Rightarrow> string \<Rightarrow> unit run" where
  \<comment> \<open>the body of \<^verbatim>\<open>for layer in layers\<close>, lines 245 to 359\<close>
  "process_layer e cfg sr pt layer w =
     (case open_layer w layer of
        Inl ex \<Rightarrow> (Inl ex, w)
      | Inr lyr \<Rightarrow>
          (case find_reltable layer (tables cfg) (relationships lyr) of
             Inl ex \<Rightarrow> (Inl ex, w)
           | Inr reltable \<Rightarrow>
               (case process_reports e cfg sr pt lyr w of
                  (Inl ex, w1) \<Rightarrow> (Inl ex, w1)
                | (Inr lyr', w1) \<Rightarrow>
                    (let w2 = w1\<lparr>stores := (stores w1)(layer \<mapsto> lyr')\<rparr> in
                     case first_key_field lyr' of
                       Inl ex \<Rightarrow> (Inl ex, w2)
                     | Inr pkey_fld \<Rightarrow>
                         (case open_layer w2 reltable of
                            Inl ex \<Rightarrow> (Inl ex, w2)
                          | Inr rellyr \<Rightarrow>
                              (case process_related e cfg lyr' pkey_fld rellyr w2 of
                                 (Inl ex, w3) \<Rightarrow> (Inl ex, w3)
                               | (Inr rellyr', w3) \<Rightarrow>
                                   (Inr (),
                                    w3\<lparr>stores := (stores w3)(reltable \<mapsto> rellyr'),
                                       console := console w3 @ [''Finished processing: '' @ py_str (layer_name lyr')]\<rparr>)))))))"

fun process_layers :: "env \<Rightarrow> config \<Rightarrow> json \<Rightarrow> prob_types \<Rightarrow> string list \<Rightarrow> unit run" where
  "process_layers e cfg sr pt [] w = (Inr (), w)"
| "process_layers e cfg sr pt (layer # rest) w =
     (case process_layer e cfg sr pt layer w of
        (Inl ex, w1) \<Rightarrow> (Inl ex, w1)
      | (Inr u, w1) \<Rightarrow> process_layers e cfg sr pt rest w1)"

definition run_body :: "env \<Rightarrow> config \<Rightarrow> unit run" where
  \<comment> \<open>the \<^verbatim>\<open>try\<close> block of \<^verbatim>\<open>main\<close>\<close>
  "run_body e cfg w =
     (case setup_run e cfg w of
        (Inl ex, w1) \<Rightarrow> (Inl ex, w1)
      | (Inr (sr, pt), w1) \<Rightarrow> process_layers e cfg sr pt (layers cfg) w1)"

definition main :: "env \<Rightarrow> config \<Rightarrow> world \<Rightarrow> world" where
  "main e cfg w =
     (case run_body e cfg (log_write (nl @ nl @ clock e @ nl) w) of
        (Inl ex, w1) \<Rightarrow> w1\<lparr>console := console w1 @ [''error: '' @ exn_str ex]\<rparr>
      | (Inr u, w1) \<Rightarrow> w1)"


section \<open>What the data model promises\<close>

text \<open>
  A source record has a unique object id: every stored feature carries a non-null value
  in the object-id field, and no two of them render to the same text (the where clause of
  line 295 compares rendered text).
\<close>

definition oid_text :: "layer \<Rightarrow> feature \<Rightarrow> string" where
  "oid_text lyr f = (case attributes f (objectIdField lyr) of None \<Rightarrow> [] | Some v \<Rightarrow> py_str v)"

definition unique_oids :: "layer \<Rightarrow> bool" where
  "unique_oids lyr =
     ((\<forall>f \<in> set (features lyr).
         case attributes f (objectIdField lyr) of None \<Rightarrow> False | Some v \<Rightarrow> v \<noteq> JNull)
      \<and> distinct (map (oid_text lyr) (features lyr)))"

text \<open>The object id, the flag and the external id are three different fields.\<close>

definition separate_fields :: "config \<Rightarrow> layer \<Rightarrow> bool" where
  "separate_fields cfg lyr =
     (objectIdField lyr \<noteq> fc_flag cfg \<and> objectIdField lyr \<noteq> snd (ids cfg) \<and> fc_flag cfg \<noteq> snd (ids cfg))"

text \<open>
  An attachment upload answers with a status payload: a \<^verbatim>\<open>Status\<close>, and an
  \<^verbatim>\<open>ErrorMessages\<close> field whenever the status is not 0.
\<close>

definition status_payload :: "json \<Rightarrow> bool" where
  "status_payload response =
     (case getitem response ''Status'' of
        Inl ex \<Rightarrow> False
      | Inr st \<Rightarrow> st = JInt 0 \<or> (case getitem response ''ErrorMessages'' of Inl ex \<Rightarrow> False | Inr m \<Rightarrow> True))"





section \<open>A small deployment\<close>

text \<open>
  The configuration of the specification's example: flag values \<^verbatim>\<open>"Y"\<close> and \<^verbatim>\<open>"N"\<close>,
  the field map \<^verbatim>\<open>[["Comments","desc"]]\<close>, the vocabulary \<^verbatim>\<open>{"POTHOLE": 42}\<close>; one
  layer with one report and one related table with one comment.
\<close>

definition ex_cfg :: config where
  "ex_cfg = \<lparr>cwUser = ''user'', cwPwd = ''secret'',
     layers = [''https://gis/FeatureServer/0''], tables = [''https://gis/FeatureServer/1''],
     layerfields = [(''Comments'', ''desc'')], tablefields = [(''Comments'', ''comment'')],
     fc_flag = ''flag'', flag_on = JStr ''Y'', flag_off = JStr ''N'',
     ids = (''RequestId'', ''cwid''), probtypes = (''ProblemSid'', ''ptype'')\<rparr>"

definition ex_report :: "json \<Rightarrow> json \<Rightarrow> feature" where
  \<comment> \<open>a report with the given flag and problem type\<close>
  "ex_report flag_value ptype =
     \<lparr>attributes = [''OBJECTID'' \<mapsto> JInt 1, ''GlobalID'' \<mapsto> JStr ''g1'', ''flag'' \<mapsto> flag_value,
                     ''ptype'' \<mapsto> ptype, ''desc'' \<mapsto> JStr ''deep hole'', ''cwid'' \<mapsto> JNull],
      geometry = JObj [(''x'', JInt 10), (''y'', JInt 20)]\<rparr>"

definition ex_untyped :: feature where
  \<comment> \<open>a flagged report that has no problem-type attribute at all\<close>
  "ex_untyped =
     \<lparr>attributes = [''OBJECTID'' \<mapsto> JInt 1, ''GlobalID'' \<mapsto> JStr ''g1'', ''flag'' \<mapsto> JStr ''Y'',
                     ''desc'' \<mapsto> JStr ''deep hole'', ''cwid'' \<mapsto> JNull],
      geometry = JObj [(''x'', JInt 10), (''y'', JInt 20)]\<rparr>"

definition ex_done :: feature where
  \<comment> \<open>a report of an earlier run: flag off, request id 77\<close>
  "ex_done =
     \<lparr>attributes = [''OBJECTID'' \<mapsto> JInt 1, ''GlobalID'' \<mapsto> JStr ''g1'', ''flag'' \<mapsto> JStr ''N'',
                     ''ptype'' \<mapsto> JStr ''pothole'', ''desc'' \<mapsto> JStr ''deep hole'', ''cwid'' \<mapsto> JInt 77],
      geometry = JObj [(''x'', JInt 10), (''y'', JInt 20)]\<rparr>"


definition ex_comment :: "string \<Rightarrow> feature" where
  \<comment> \<open>a comment that points at the parent with the given global id\<close>
  "ex_comment parent_id =
     \<lparr>attributes = [''OBJECTID'' \<mapsto> JInt 5, ''parentid'' \<mapsto> JStr parent_id, ''flag'' \<mapsto> JNull,
                     ''comment'' \<mapsto> JStr ''still there''],
      geometry = JNull\<rparr>"

definition ex_layer :: "feature list \<Rightarrow> json list \<Rightarrow> layer" where
  "ex_layer fs atts =
     \<lparr>objectIdField = ''OBJECTID'',
      relationships = [JObj [(''relatedTableId'', JInt 1), (''keyField'', JStr ''GlobalID'')]],
      layer_name = JStr ''Reports'', features = fs, attachment_list = (\<lambda>oid. atts),
      download = (\<lambda>oid aid. Inr ''/tmp/photo.jpg'')\<rparr>"

definition ex_table :: "feature list \<Rightarrow> layer" where
  "ex_table fs =
     \<lparr>objectIdField = ''OBJECTID'',
      relationships = [JObj [(''relatedTableId'', JInt 0), (''keyField'', JStr ''parentid'')]],
      layer_name = JStr ''Comments'', features = fs, attachment_list = (\<lambda>oid. []),
      download = (\<lambda>oid aid. Inr ''/tmp/photo.jpg'')\<rparr>"

definition ok_status :: json where
  "ok_status = JObj [(''Status'', JInt 0), (''ErrorMessages'', JArr [])]"

definition failed_status :: json where
  "failed_status = JObj [(''Status'', JInt 1), (''ErrorMessages'', JArr [JStr ''rejected''])]"

definition ex_server :: "json \<Rightarrow> json \<Rightarrow> json \<Rightarrow> json \<Rightarrow> cityworks_server" where
  \<comment> \<open>a server that answers by endpoint: the problem list, the answer to Create, to an upload, to a comment\<close>
  "ex_server problems created uploaded commented hist c =
     (case c of
        Authenticate user pwd \<Rightarrow> Inr (JObj [(''Status'', JInt 0), (''Value'', JObj [(''Token'', JStr ''tok'')])])
      | Preferences tok \<Rightarrow> Inr (JObj [(''Status'', JInt 0), (''Value'', JObj [(''SpatialReference'', JInt 4326)])])
      | Problems tok \<Rightarrow> Inr (JObj [(''Status'', JInt 0), (''Value'', problems)])
      | Create tok values \<Rightarrow> Inr created
      | AddRequestAttachment tok rid attpath \<Rightarrow> Inr uploaded
      | AddToRequest tok values \<Rightarrow> Inr commented)"

definition ex_problems :: "json \<Rightarrow> json" where
  \<comment> \<open>the problem list with one entry, POTHOLE, under the given id\<close>
  "ex_problems sid = JArr [JObj [(''ProblemCode'', JStr ''Pothole''), (''ProblemSid'', sid)]]"

definition created_ok :: json where
  "created_ok = JObj [(''Status'', JInt 0), (''Value'', JObj [(''RequestId'', JInt 77)])]"

definition created_no_id :: json where
  \<comment> \<open>an answer to Create without the request identifier\<close>
  "created_no_id = JObj [(''Status'', JInt 1), (''Value'', JObj [(''Description'', JStr ''refused'')])]"

definition ex_env :: "cityworks_server \<Rightarrow> env" where
  "ex_env server = \<lparr>cityworks = server, portal_login = None, clock = ''2016-10-31 08:00:00'',
                    project = (\<lambda>sr g. g)\<rparr>"

definition ex_vocab :: prob_types where
  "ex_vocab = ProbDict [''POTHOLE'' \<mapsto> 42]"

definition ex_world :: "layer \<Rightarrow> layer \<Rightarrow> world" where
  "ex_world lyr tbl =
     \<lparr>stores = [''https://gis/FeatureServer/0'' \<mapsto> lyr, ''https://gis/FeatureServer/1'' \<mapsto> tbl],
      cw_token = JStr [], calls = [], log_file = [], console = []\<rparr>"

definition stored :: "world \<Rightarrow> string \<Rightarrow> string \<Rightarrow> json option list" where
  \<comment> \<open>one attribute of every stored feature of a layer\<close>
  "stored w url fld = (case stores w url of None \<Rightarrow> [] | Some lyr \<Rightarrow> map (\<lambda>f. attributes f fld) (features lyr))"

definition created_value :: "cw_call \<Rightarrow> string \<Rightarrow> json option" where
  \<comment> \<open>one field of the payload of a Create call\<close>
  "created_value c k = (case c of Create tok values \<Rightarrow> values k | _ \<Rightarrow> None)"

definition error_text :: "prob_types \<Rightarrow> string option" where
  \<comment> \<open>the string that \<^verbatim>\<open>get_problem_types\<close> returned, if it returned one\<close>
  "error_text pt = (case pt of ProbStr s \<Rightarrow> Some s | ProbDict d \<Rightarrow> None)"

definition is_comment_call :: "cw_call \<Rightarrow> bool" where
  "is_comment_call c = (case c of AddToRequest tok values \<Rightarrow> True | _ \<Rightarrow> False)"


definition run_without_request_id :: world where
  \<comment> \<open>a run in which Cityworks answers the one submission without a request identifier\<close>
  "run_without_request_id =
     main (ex_env (ex_server (ex_problems (JInt 42)) created_no_id ok_status ok_status)) ex_cfg
       (ex_world (ex_layer [ex_report (JStr ''Y'') (JStr ''pothole'')] []) (ex_table []))"

definition run_with_bad_vocabulary :: world where
  \<comment> \<open>a run in which the problem list has a non-numeric id; one comment waits on a finished report\<close>
  "run_with_bad_vocabulary =
     main (ex_env (ex_server (ex_problems (JStr ''abc'')) created_ok ok_status ok_status)) ex_cfg
       (ex_world (ex_layer [ex_done] []) (ex_table [ex_comment ''g1'']))"

section \<open>Basic facts\<close>

lemma starts_with_append: "starts_with p (p @ s)"
  by (induction p) auto

lemma str_contains_prefix: "str_contains p (p @ s)"
  by (cases "p @ s") (auto simp: starts_with_append simp del: starts_with.simps dest: sym)

lemma is_warning_no_type: "is_warning (JStr (warn_no_type oid))"
  by (simp add: is_warning_def warn_no_type_def)

lemma is_warning_not_found: "is_warning (JStr (warn_not_found v oid))"
  by (simp add: is_warning_def warn_not_found_def)

lemma is_warning_missing: "is_warning (JStr (warn_missing oid fld))"
  by (simp add: is_warning_def warn_missing_def)

lemma problem_sid_unresolved:
  assumes "attrs (snd tf) = Some (JStr s)" and "d (py_upper s) = None"
  shows "problem_sid (ProbDict d) attrs tf oid =
           Inr (Inl (if py_strip s = [] then warn_no_type oid else warn_not_found (JStr s) oid))"
  using assms
  by (simp add: problem_sid_def lookup_def and_then_def str_upper_def prob_lookup_def str_strip_def)

lemma problem_sid_not_string:
  assumes "attrs (snd tf) = Some v" and "\<forall>s. v \<noteq> JStr s"
  shows "problem_sid pt attrs tf oid = Inr (Inl (warn_missing oid (snd tf)))"
  using assms
  by (cases v) (simp_all add: problem_sid_def lookup_def and_then_def str_upper_def)

lemma problem_sid_absent:
  assumes "attrs (snd tf) = None"
  shows "problem_sid pt attrs tf oid = Inl (KeyError (quoted (snd tf)))"
  using assms by (simp add: problem_sid_def lookup_def and_then_def)

lemma query_eq_flagged: "query_eq lyr (fc_flag cfg) (flag_on cfg) = filter (flagged cfg) (features lyr)"
  unfolding query_eq_def by (rule filter_cong) (simp_all add: flagged_def)

lemma filter_key_unique:
  "distinct (map h xs) \<Longrightarrow> x \<in> set xs \<Longrightarrow> filter (\<lambda>y. h y = h x) xs = [x]"
proof (induction xs)
  case Nil
  then show ?case by simp
next
  case (Cons a xs)
  show ?case
  proof (cases "a = x")
    case True
    with Cons.prems have "\<forall>y \<in> set xs. h y \<noteq> h x" by (fastforce simp: image_iff)
    then have "filter (\<lambda>y. h y = h x) xs = []" by (simp add: filter_empty_conv)
    with True show ?thesis by simp
  next
    case False
    with Cons.prems have "x \<in> set xs" and "h a \<noteq> h x" by auto
    with Cons show ?thesis by simp
  qed
qed

subsection \<open>Unique object ids: the re-query of line 296 finds the record itself\<close>

lemma unique_oids_has_oid:
  assumes "unique_oids lyr" and "f \<in> set (features lyr)"
  shows "\<exists>v. attributes f (objectIdField lyr) = Some v \<and> v \<noteq> JNull"
  using assms by (auto simp: unique_oids_def split: option.splits)

lemma unique_oids_inj:
  assumes "unique_oids lyr" and "f \<in> set (features lyr)" and "g \<in> set (features lyr)"
    and "attributes f (objectIdField lyr) = attributes g (objectIdField lyr)"
  shows "f = g"
proof -
  have "distinct (map (oid_text lyr) (features lyr))" using assms(1) by (simp add: unique_oids_def)
  then have "inj_on (oid_text lyr) (set (features lyr))" by (simp add: distinct_map)
  moreover have "oid_text lyr f = oid_text lyr g" using assms(4) by (simp add: oid_text_def)
  ultimately show ?thesis using assms(2,3) by (auto dest: inj_onD)
qed

lemma requery:
  assumes u: "unique_oids lyr" and f: "f \<in> set (features lyr)"
    and v: "attributes f (objectIdField lyr) = Some v"
  shows "query_eq lyr (objectIdField lyr) v = [f]"
proof -
  have d: "distinct (map (oid_text lyr) (features lyr))" using u by (simp add: unique_oids_def)
  have "\<And>g. g \<in> set (features lyr) \<Longrightarrow>
          sql_eq (attributes g (objectIdField lyr)) v = (oid_text lyr g = oid_text lyr f)"
    using unique_oids_has_oid [OF u] v by (fastforce simp: sql_eq_def oid_text_def)
  then have "query_eq lyr (objectIdField lyr) v =
               filter (\<lambda>g. oid_text lyr g = oid_text lyr f) (features lyr)"
    unfolding query_eq_def by (intro filter_cong) auto
  with filter_key_unique [OF d f] show ?thesis by simp
qed

subsection \<open>The loop over the flagged records\<close>

lemma report_row_cases:
  assumes u: "unique_oids lyr" and f: "f \<in> set (features lyr)"
    and r: "report_row e cfg pt lyr (reproject e sr f) ups w = (Inr ups', w')"
  shows "\<exists>oid rid w1. attributes f (objectIdField lyr) = Some oid
           \<and> submit_to_cw e (reproject e sr f) pt (layerfields cfg) oid (probtypes cfg) w = (Inr rid, w1)
           \<and> (if is_warning rid then ups' = ups else ups' = ups @ [flag_row cfg f rid])"
proof -
  obtain oid where oid: "attributes f (objectIdField lyr) = Some oid"
    using unique_oids_has_oid [OF u f] by blast
  have q: "query_eq lyr (objectIdField lyr) oid = [f]" by (rule requery [OF u f oid])
  obtain res w1 where s: "submit_to_cw e (reproject e sr f) pt (layerfields cfg) oid (probtypes cfg) w = (res, w1)"
    by (cases "submit_to_cw e (reproject e sr f) pt (layerfields cfg) oid (probtypes cfg) w")
  from r oid s q obtain rid where "res = Inr rid"
    and "if is_warning rid then ups' = ups else ups' = ups @ [flag_row cfg f rid]"
    by (auto simp: report_row_def reproject_def lookup_def split: sum.splits if_splits prod.splits)
  with oid s show ?thesis by auto
qed


lemma report_rows_updates:
  assumes u: "unique_oids lyr"
  shows "set fs \<subseteq> set (features lyr) \<Longrightarrow>
         report_rows e cfg pt lyr (map (reproject e sr) fs) ups w = (Inr ups', w') \<Longrightarrow>
         \<exists>new. ups' = ups @ new \<and>
           (\<forall>x \<in> set new. \<exists>f \<in> set fs. \<exists>oid rid w0 w1.
               attributes f (objectIdField lyr) = Some oid
             \<and> submit_to_cw e (reproject e sr f) pt (layerfields cfg) oid (probtypes cfg) w0 = (Inr rid, w1)
             \<and> \<not> is_warning rid \<and> x = flag_row cfg f rid)"
proof (induction fs arbitrary: ups w)
  case Nil
  then show ?case by simp
next
  case (Cons f fs)
  from Cons.prems(2) obtain ups1 w1 where
    step: "report_row e cfg pt lyr (reproject e sr f) ups w = (Inr ups1, w1)"
    and rest: "report_rows e cfg pt lyr (map (reproject e sr) fs) ups1 w1 = (Inr ups', w')"
    by (auto split: prod.splits sum.splits)
  from Cons.prems(1) have f: "f \<in> set (features lyr)" and fs: "set fs \<subseteq> set (features lyr)" by auto
  from report_row_cases [OF u f step] obtain oid rid wa where
    oid: "attributes f (objectIdField lyr) = Some oid"
    and sub: "submit_to_cw e (reproject e sr f) pt (layerfields cfg) oid (probtypes cfg) w = (Inr rid, wa)"
    and ups1: "if is_warning rid then ups1 = ups else ups1 = ups @ [flag_row cfg f rid]"
    by blast
  from Cons.IH [OF fs rest] obtain new where
    new: "ups' = ups1 @ new"
    and orig: "\<forall>x \<in> set new. \<exists>f \<in> set fs. \<exists>oid rid w0 w1.
               attributes f (objectIdField lyr) = Some oid
             \<and> submit_to_cw e (reproject e sr f) pt (layerfields cfg) oid (probtypes cfg) w0 = (Inr rid, w1)
             \<and> \<not> is_warning rid \<and> x = flag_row cfg f rid"
    by blast
  show ?case
  proof (cases "is_warning rid")
    case True
    with ups1 new have "ups' = ups @ new" by simp
    with orig show ?thesis by (intro exI [of _ new]) auto
  next
    case False
    with ups1 new have "ups' = ups @ (flag_row cfg f rid # new)" by simp
    moreover have "\<forall>x \<in> set (flag_row cfg f rid # new). \<exists>f' \<in> set (f # fs). \<exists>oid rid w0 w1.
               attributes f' (objectIdField lyr) = Some oid
             \<and> submit_to_cw e (reproject e sr f') pt (layerfields cfg) oid (probtypes cfg) w0 = (Inr rid, w1)
             \<and> \<not> is_warning rid \<and> x = flag_row cfg f' rid"
      using orig oid sub False by (auto 0 3)
    ultimately show ?thesis by blast
  qed
qed

subsection \<open>The batch write-back\<close>

lemma apply_update_length: "length (apply_update fld u fs) = length fs"
  by (simp add: apply_update_def)


lemma apply_update_nth:
  "i < length fs \<Longrightarrow> apply_update fld u fs ! i = (if same_oid fld u (fs ! i) then u else fs ! i)"
  by (simp add: apply_update_def)

lemma fold_apply_update_other:
  "i < length fs \<Longrightarrow> \<forall>u \<in> set ups. \<not> same_oid fld u (fs ! i) \<Longrightarrow>
   fold (apply_update fld) ups fs ! i = fs ! i"
proof (induction ups arbitrary: fs)
  case Nil
  then show ?case by simp
next
  case (Cons u ups)
  have "fold (apply_update fld) ups (apply_update fld u fs) ! i = apply_update fld u fs ! i"
    using Cons.prems by (intro Cons.IH) (simp_all add: apply_update_length apply_update_nth)
  with Cons.prems show ?case by (simp add: apply_update_nth)
qed

lemma apply_update_oids:
  "map (\<lambda>f. attributes f fld) (apply_update fld u fs) = map (\<lambda>f. attributes f fld) fs"
  by (simp add: apply_update_def same_oid_def)

lemma fold_apply_update_oids:
  "map (\<lambda>f. attributes f fld) (fold (apply_update fld) ups fs) = map (\<lambda>f. attributes f fld) fs"
  by (induction ups arbitrary: fs) (simp_all add: apply_update_oids)

lemma apply_edits_features:
  "features (fst (apply_edits what lyr ups w)) = fold (apply_update (objectIdField lyr)) ups (features lyr)"
  by (cases ups) (simp_all add: apply_edits_def edit_features_def)

lemma process_reports_features:
  assumes "process_reports e cfg sr pt lyr w = (Inr lyr', w')"
  shows "\<exists>ups w1. report_rows e cfg pt lyr (map (reproject e sr) (filter (flagged cfg) (features lyr))) [] w = (Inr ups, w1)
           \<and> features lyr' = fold (apply_update (objectIdField lyr)) ups (features lyr)"
proof -
  from assms obtain ups w1 where
    r: "report_rows e cfg pt lyr (map (reproject e sr) (filter (flagged cfg) (features lyr))) [] w = (Inr ups, w1)"
    and l: "lyr' = fst (apply_edits ''layers'' lyr ups w1)"
    by (auto simp: process_reports_def query_eq_flagged split: prod.splits sum.splits)
  from l have "features lyr' = fold (apply_update (objectIdField lyr)) ups (features lyr)"
    by (simp add: apply_edits_features)
  with r show ?thesis by blast
qed

lemma flag_row_oid:
  "separate_fields cfg lyr \<Longrightarrow>
   attributes (flag_row cfg f rid) (objectIdField lyr) = attributes f (objectIdField lyr)"
  by (simp add: flag_row_def separate_fields_def)

lemma same_oid_flag_row:
  assumes "unique_oids lyr" and "separate_fields cfg lyr"
    and "f \<in> set (features lyr)" and "g \<in> set (features lyr)"
    and "same_oid (objectIdField lyr) (flag_row cfg f rid) g"
  shows "f = g"
  using assms unique_oids_inj [of lyr f g] by (simp add: same_oid_def flag_row_oid)


lemma submit_to_cw_warns:
  assumes "problem_sid pt (attributes row) tf oid = Inr (Inl warning)"
  shows "submit_to_cw e row pt flds oid tf w = (Inr (JStr warning), w)"
  using assms by (simp add: submit_to_cw_def)

lemma unresolved_warns:
  assumes v: "attributes r (snd tf) = Some v"
    and bad: "(\<exists>s. v = JStr s \<and> d (py_upper s) = None) \<or> (\<forall>s. v \<noteq> JStr s)"
  shows "\<exists>warning. problem_sid (ProbDict d) (attributes (reproject e sr r)) tf oid = Inr (Inl warning)
                   \<and> is_warning (JStr warning)"
proof -
  have a: "attributes (reproject e sr r) = attributes r" by (simp add: reproject_def)
  from bad show ?thesis
  proof
    assume "\<exists>s. v = JStr s \<and> d (py_upper s) = None"
    then obtain s where "v = JStr s" and "d (py_upper s) = None" by blast
    with v show ?thesis
      by (simp add: a problem_sid_unresolved is_warning_no_type is_warning_not_found)
  next
    assume "\<forall>s. v \<noteq> JStr s"
    with v show ?thesis by (simp add: a problem_sid_not_string is_warning_missing)
  qed
qed

subsection \<open>The payload, the attachment loop, the related records\<close>

lemma problem_sid_resolved:
  assumes "attrs (snd tf) = Some (JStr s)" and "d (py_upper s) = Some sid"
  shows "problem_sid (ProbDict d) attrs tf oid = Inr (Inr sid)"
  using assms
  by (simp add: problem_sid_def lookup_def and_then_def str_upper_def prob_lookup_def)

lemma copy_fields_result:
  assumes "\<forall>fs \<in> set flds. attrs (snd fs) \<noteq> None"
  shows "\<exists>values'. copy_fields flds attrs vals0 = Inr values'
           \<and> (\<forall>c. c \<notin> fst ` set flds \<longrightarrow> values' c = vals0 c)
           \<and> (distinct (map fst flds) \<longrightarrow>
                (\<forall>c a. (c, a) \<in> set flds \<longrightarrow> (\<exists>v. attrs a = Some v \<and> values' c = Some (JStr (py_str v)))))"
  using assms
proof (induction flds arbitrary: vals0)
  case Nil
  then show ?case by simp
next
  case (Cons fs flds)
  from Cons.prems obtain v where v: "attrs (snd fs) = Some v" by auto
  let ?vals = "vals0(fst fs \<mapsto> JStr (py_str v))"
  from Cons.prems have "\<forall>fs \<in> set flds. attrs (snd fs) \<noteq> None" by simp
  from Cons.IH [OF this, of ?vals] obtain values' where
    r: "copy_fields flds attrs ?vals = Inr values'"
    and keep: "\<forall>c. c \<notin> fst ` set flds \<longrightarrow> values' c = ?vals c"
    and new: "distinct (map fst flds) \<longrightarrow>
                (\<forall>c a. (c, a) \<in> set flds \<longrightarrow> (\<exists>v. attrs a = Some v \<and> values' c = Some (JStr (py_str v))))"
    by blast
  have 1: "copy_fields (fs # flds) attrs vals0 = Inr values'" using v r by (simp add: lookup_def)
  have 2: "\<forall>c. c \<notin> fst ` set (fs # flds) \<longrightarrow> values' c = vals0 c" using keep by auto
  have 3: "distinct (map fst (fs # flds)) \<longrightarrow>
                (\<forall>c a. (c, a) \<in> set (fs # flds) \<longrightarrow> (\<exists>v. attrs a = Some v \<and> values' c = Some (JStr (py_str v))))"
  proof (intro impI allI)
    fix c a assume d: "distinct (map fst (fs # flds))" and m: "(c, a) \<in> set (fs # flds)"
    show "\<exists>v. attrs a = Some v \<and> values' c = Some (JStr (py_str v))"
    proof (cases "(c, a) = fs")
      case True
      with d have "c \<notin> fst ` set flds" by force
      with keep True have "values' c = Some (JStr (py_str v))" by auto
      with v True show ?thesis by auto
    next
      case False
      with m have "(c, a) \<in> set flds" by auto
      with new d show ?thesis by auto
    qed
  qed
  from 1 2 3 show ?case by blast
qed



lemma related_rows_append:
  "related_rows e cfg lyr rellyr pk fk (xs @ ys) ups w =
     (case related_rows e cfg lyr rellyr pk fk xs ups w of
        (Inl ex, w1) \<Rightarrow> (Inl ex, w1)
      | (Inr ups1, w1) \<Rightarrow> related_rows e cfg lyr rellyr pk fk ys ups1 w1)"
  by (induction xs arbitrary: ups w) (auto split: prod.splits sum.splits)

section \<open>The claims\<close>

subsection \<open>C1: a submission that returns the error string\<close>

text \<open>
  C1 says that a record whose submission returns the error outcome (the answer of
  Cityworks has no request identifier) is logged as an error and skipped, its flag left
  at the "on" value and its external id unset. The code does not do this:
  \<^verbatim>\<open>submit_to_cw\<close> returns the string \<^verbatim>\<open>"error"\<close>, and \<^verbatim>\<open>main\<close> only tests the result for
  the substring \<^verbatim>\<open>"WARNING"\<close>. In the run below the one flagged report is submitted, the
  answer has no \<^verbatim>\<open>RequestId\<close>, and afterwards the stored record has the flag \<^verbatim>\<open>"N"\<close> and
  the external id \<^verbatim>\<open>"error"\<close>; no line of the log mentions an error.
\<close>

theorem submission_error_is_written_back:
  "fst (submit_to_cw (ex_env (ex_server (ex_problems (JInt 42)) created_no_id ok_status ok_status))
          (ex_report (JStr ''Y'') (JStr ''pothole'')) ex_vocab (layerfields ex_cfg) (JInt 1) (probtypes ex_cfg)
          (ex_world (ex_layer [ex_report (JStr ''Y'') (JStr ''pothole'')] []) (ex_table [])))
     = Inr (JStr ''error'')
   \<and> stored run_without_request_id ''https://gis/FeatureServer/0'' ''flag'' = [Some (JStr ''N'')]
   \<and> stored run_without_request_id ''https://gis/FeatureServer/0'' ''cwid'' = [Some (JStr ''error'')]
   \<and> filter (str_contains ''rror'') (log_file run_without_request_id) = []"
  by code_simp

subsection \<open>C2: a vocabulary fetch that fails\<close>

text \<open>The guard of line 237 is dead: the fetch never returns the bare string it is compared with.\<close>

lemma problem_types_never_plain_error: "fst (get_problem_types e w) \<noteq> ProbStr ''error''"
  by (auto simp: get_problem_types_def split: prod.splits sum.splits)

text \<open>
  C2 says that a failed fetch of the problem types aborts the run in the set-up phase,
  before any record is processed. The code does not do this: \<^verbatim>\<open>get_problem_types\<close>
  returns \<^verbatim>\<open>"error: " + str(error)\<close>, and \<^verbatim>\<open>main\<close> compares the result with the string
  \<^verbatim>\<open>"error"\<close>, which it never equals. In the run below the problem list has the id
  \<^verbatim>\<open>"abc"\<close>: the fetch returns the error string, the set-up goes on, the layer is
  processed, the waiting comment is sent to Cityworks (the fourth call) and flagged, and
  the log has no line "Problem types not defined".
\<close>

theorem failed_vocabulary_does_not_abort:
  "error_text (fst (get_problem_types (ex_env (ex_server (ex_problems (JStr ''abc'')) created_ok ok_status ok_status))
          (ex_world (ex_layer [ex_done] []) (ex_table [ex_comment ''g1'']))))
     = Some (''error: invalid literal for int() with base 10: '' @ quoted ''abc'')
   \<and> map is_comment_call (calls run_with_bad_vocabulary) = [False, False, False, True]
   \<and> stored run_with_bad_vocabulary ''https://gis/FeatureServer/1'' ''flag'' = [Some (JStr ''N'')]
   \<and> console run_with_bad_vocabulary = [''Finished processing: Reports'']
   \<and> filter (str_contains ''Problem types not defined'') (log_file run_with_bad_vocabulary) = []"
  by code_simp


subsection \<open>C3: a record whose problem type does not resolve\<close>

text \<open>
  C3 says that a flagged record whose problem-type attribute is blank, unresolvable or
  absent makes the mapper return a warning. For a record that has no such attribute at
  all this fails: the lookup of line 106 raises KeyError, the handler of line 109 reads
  the attribute again, and that second KeyError leaves \<^verbatim>\<open>submit_to_cw\<close> and ends the
  run in the handler of line 361.
\<close>

theorem missing_type_attribute_raises:
  "fst (submit_to_cw (ex_env (ex_server (ex_problems (JInt 42)) created_ok ok_status ok_status))
          ex_untyped ex_vocab (layerfields ex_cfg) (JInt 1) (probtypes ex_cfg)
          (ex_world (ex_layer [ex_untyped] []) (ex_table [])))
     = Inl (KeyError (quoted ''ptype''))
   \<and> console (main (ex_env (ex_server (ex_problems (JInt 42)) created_ok ok_status ok_status)) ex_cfg
                 (ex_world (ex_layer [ex_untyped] []) (ex_table [])))
     = [''error: '' @ quoted ''ptype'']"
  by code_simp

text \<open>
  C3 as amended: for every flagged record whose problem-type attribute is present and
  is either a string that the vocabulary does not resolve (a blank one included) or not a
  string (null), \<^verbatim>\<open>submit_to_cw\<close> returns a warning string and makes no Cityworks call
  (the state is unchanged); the loop logs the warning and queues nothing; and after a
  pass that completes, the stored record is the one it was, so its flag is still "on".
  Object ids are unique, and the object id, the flag and the external id are different
  fields.
\<close>

theorem unresolved_type_is_skipped:
  assumes u: "unique_oids lyr" and s: "separate_fields cfg lyr"
    and i: "i < length (features lyr)" and r: "features lyr ! i = r" and fl: "flagged cfg r"
    and v: "attributes r (snd (probtypes cfg)) = Some v"
    and bad: "(\<exists>s. v = JStr s \<and> d (py_upper s) = None) \<or> (\<forall>s. v \<noteq> JStr s)"
  shows "(\<forall>oid w. \<exists>warning.
            submit_to_cw e (reproject e sr r) (ProbDict d) (layerfields cfg) oid (probtypes cfg) w
              = (Inr (JStr warning), w) \<and> is_warning (JStr warning))
       \<and> (\<forall>ups w. \<exists>warning.
            report_row e cfg (ProbDict d) lyr (reproject e sr r) ups w
              = (Inr ups, log_write (''Warning generated while copying record to Cityworks: '' @ warning @ nl) w))
       \<and> (\<forall>w lyr' w'. process_reports e cfg sr (ProbDict d) lyr w = (Inr lyr', w') \<longrightarrow>
            features lyr' ! i = r \<and> flagged cfg (features lyr' ! i))"
proof -
  have rin: "r \<in> set (features lyr)" using i r by auto
  have warn: "\<exists>warning. submit_to_cw e (reproject e sr r) (ProbDict d) (layerfields cfg) oid (probtypes cfg) w
              = (Inr (JStr warning), w) \<and> is_warning (JStr warning)" for oid w
    using unresolved_warns [OF v bad, of e sr oid] by (auto simp: submit_to_cw_warns)
  have step: "\<exists>warning. report_row e cfg (ProbDict d) lyr (reproject e sr r) ups w
                = (Inr ups, log_write (''Warning generated while copying record to Cityworks: '' @ warning @ nl) w)" for ups w
  proof -
    obtain oid where oid: "attributes r (objectIdField lyr) = Some oid"
      using unique_oids_has_oid [OF u rin] by blast
    from warn [of oid w] obtain warning where
      "submit_to_cw e (reproject e sr r) (ProbDict d) (layerfields cfg) oid (probtypes cfg) w = (Inr (JStr warning), w)"
      and "is_warning (JStr warning)" by blast
    with oid have "report_row e cfg (ProbDict d) lyr (reproject e sr r) ups w
                = (Inr ups, log_write (''Warning generated while copying record to Cityworks: '' @ warning @ nl) w)"
      by (simp add: report_row_def reproject_def lookup_def py_str_def)
    then show ?thesis by blast
  qed
  have store: "features lyr' ! i = r \<and> flagged cfg (features lyr' ! i)"
    if p: "process_reports e cfg sr (ProbDict d) lyr w = (Inr lyr', w')" for w lyr' w'
  proof -
    from process_reports_features [OF p] obtain ups w1 where
      rr: "report_rows e cfg (ProbDict d) lyr (map (reproject e sr) (filter (flagged cfg) (features lyr))) [] w = (Inr ups, w1)"
      and l: "features lyr' = fold (apply_update (objectIdField lyr)) ups (features lyr)"
      by blast
    have sub: "set (filter (flagged cfg) (features lyr)) \<subseteq> set (features lyr)" by auto
    have "\<forall>x \<in> set ups. \<not> same_oid (objectIdField lyr) x r"
    proof
      fix x assume "x \<in> set ups"
      with report_rows_updates [OF u sub rr] obtain f oid rid w0 w1' where
        f: "f \<in> set (features lyr)"
        and sb: "submit_to_cw e (reproject e sr f) (ProbDict d) (layerfields cfg) oid (probtypes cfg) w0 = (Inr rid, w1')"
        and nw: "\<not> is_warning rid" and x: "x = flag_row cfg f rid"
        by fastforce
      show "\<not> same_oid (objectIdField lyr) x r"
      proof
        assume "same_oid (objectIdField lyr) x r"
        with x have "f = r" using same_oid_flag_row [OF u s f rin] by simp
        with sb nw warn [of oid w0] show False by auto
      qed
    qed
    with i r l have "features lyr' ! i = r" by (simp add: fold_apply_update_other)
    with fl show ?thesis by simp
  qed
  from warn step store show ?thesis by blast
qed

theorem unresolved_type_is_skipped_witness:
  "unique_oids (ex_layer [ex_report (JStr ''Y'') (JStr ''graffiti'')] [])
   \<and> separate_fields ex_cfg (ex_layer [ex_report (JStr ''Y'') (JStr ''graffiti'')] [])
   \<and> (0::nat) < length (features (ex_layer [ex_report (JStr ''Y'') (JStr ''graffiti'')] []))
   \<and> flagged ex_cfg (ex_report (JStr ''Y'') (JStr ''graffiti''))
   \<and> attributes (ex_report (JStr ''Y'') (JStr ''graffiti'')) (snd (probtypes ex_cfg)) = Some (JStr ''graffiti'')
   \<and> [''POTHOLE'' \<mapsto> (42::int)] (py_upper ''graffiti'') = None
   \<and> (\<exists>lyr' w'.
        process_reports (ex_env (ex_server (ex_problems (JInt 42)) created_ok ok_status ok_status)) ex_cfg (JInt 4326)
          (ProbDict [''POTHOLE'' \<mapsto> 42]) (ex_layer [ex_report (JStr ''Y'') (JStr ''graffiti'')] [])
          (ex_world (ex_layer [] []) (ex_table [])) = (Inr lyr', w')
      \<and> features lyr' ! 0 = ex_report (JStr ''Y'') (JStr ''graffiti'')
      \<and> calls w' = [])"
proof -
  let ?r = "ex_report (JStr ''Y'') (JStr ''graffiti'')"
  let ?L = "ex_layer [?r] []"
  let ?E = "ex_env (ex_server (ex_problems (JInt 42)) created_ok ok_status ok_status)"
  let ?W = "ex_world (ex_layer [] []) (ex_table [])"
  let ?d = "[''POTHOLE'' \<mapsto> (42::int)]"
  have h1: "unique_oids ?L" by code_simp
  have h2: "separate_fields ex_cfg ?L" by code_simp
  have h3: "(0::nat) < length (features ?L)" by code_simp
  have h4: "features ?L ! 0 = ?r" by (simp add: ex_layer_def)
  have h5: "flagged ex_cfg ?r" by code_simp
  have h6: "attributes ?r (snd (probtypes ex_cfg)) = Some (JStr ''graffiti'')" by code_simp
  have h7: "?d (py_upper ''graffiti'') = None" by code_simp
  then have h8: "(\<exists>s. JStr ''graffiti'' = JStr s \<and> ?d (py_upper s) = None) \<or> (\<forall>s. JStr ''graffiti'' \<noteq> JStr s)"
    by blast
  have "case process_reports ?E ex_cfg (JInt 4326) (ProbDict ?d) ?L ?W of
          (Inl ex, w') \<Rightarrow> False | (Inr lyr', w') \<Rightarrow> calls w' = []"
    by code_simp
  then obtain lyr' w' where p: "process_reports ?E ex_cfg (JInt 4326) (ProbDict ?d) ?L ?W = (Inr lyr', w')"
    and c: "calls w' = []"
    by (auto split: prod.splits sum.splits)
  from unresolved_type_is_skipped [OF h1 h2 h3 h4 h5 h6 h8, of ?E "JInt 4326"] p
  have "features lyr' ! 0 = ?r" by blast
  with h1 h2 h3 h5 h6 h7 p c show ?thesis by blast
qed

subsection \<open>C4: a record whose submission succeeds\<close>



subsection \<open>C7: records that are not flagged\<close>




subsection \<open>C5: attachment uploads that fail\<close>



subsection \<open>C6: the flag of a related record\<close>

text \<open>
  C6: a related record is flagged and queued for write-back if and only if its
  comment-append call answers with status 0. With any other status the queue is
  unchanged, so the record is neither flagged nor written back, and the one line that
  the step logs is the error line with the answer's error messages. The answer is a
  status payload; the record has the object-id field, its parent is found, and its
  attachment loop has finished.
\<close>

theorem comment_status_decides_flag:
  assumes oid: "lookup (attributes record) (objectIdField lyr) = Inr rel_oid"
    and par: "get_parent lyr pkey_fld record fkey_fld = Inr parent"
    and att: "copy_attachments e rellyr (attachment_list rellyr rel_oid) rel_oid
                (lookup (attributes parent) (snd (ids cfg))) w = (Inr u, w1)"
    and com: "copy_comments e record parent (tablefields cfg) (ids cfg) w1 = (Inr response, w2)"
    and sp: "status_payload response"
  shows "\<exists>st ups' w'.
           getitem response ''Status'' = Inr st
         \<and> related_row e cfg lyr rellyr pkey_fld fkey_fld record ups w = (Inr ups', w')
         \<and> (ups' = ups @ [flag_record cfg record]) = (st = JInt 0)
         \<and> (ups' = ups) = (st \<noteq> JInt 0)
         \<and> (st \<noteq> JInt 0 \<longrightarrow>
              (\<exists>msgs. getitem response ''ErrorMessages'' = Inr msgs
                 \<and> w' = log_write (''Error while copying comment to Cityworks: '' @ py_str msgs @ nl) w2))
         \<and> attributes (flag_record cfg record) (fc_flag cfg) = Some (flag_off cfg)"
proof -
  from sp obtain st where
    st: "getitem response ''Status'' = Inr st"
    and em: "st = JInt 0 \<or> (\<exists>m. getitem response ''ErrorMessages'' = Inr m)"
    by (auto simp: status_payload_def split: sum.splits)
  have fl: "attributes (flag_record cfg record) (fc_flag cfg) = Some (flag_off cfg)"
    by (simp add: flag_record_def)
  show ?thesis
  proof (cases "st = JInt 0")
    case True
    have "related_row e cfg lyr rellyr pkey_fld fkey_fld record ups w
            = (Inr (ups @ [flag_record cfg record]),
               log_write (''Status of updates to Cityworks comments: '' @ py_str response @ nl) w2)"
      using oid par att com st True by (simp add: related_row_def)
    with st True fl show ?thesis by auto
  next
    case False
    with em obtain m where m: "getitem response ''ErrorMessages'' = Inr m" by blast
    have "related_row e cfg lyr rellyr pkey_fld fkey_fld record ups w
            = (Inr ups, log_write (''Error while copying comment to Cityworks: '' @ py_str m @ nl) w2)"
      using oid par att com st False m by (simp add: related_row_def)
    with st False m fl show ?thesis by auto
  qed
qed

theorem comment_status_decides_flag_witness:
  "lookup (attributes (ex_comment ''g1'')) (objectIdField (ex_layer [ex_done] [])) = Inr (JInt 5)
   \<and> get_parent (ex_layer [ex_done] []) (JStr ''GlobalID'') (ex_comment ''g1'') (JStr ''parentid'') = Inr ex_done
   \<and> fst (copy_comments (ex_env (ex_server (ex_problems (JInt 42)) created_ok ok_status failed_status))
            (ex_comment ''g1'') ex_done (tablefields ex_cfg) (ids ex_cfg) (ex_world (ex_layer [] []) (ex_table [])))
       = Inr failed_status
   \<and> status_payload failed_status
   \<and> getitem failed_status ''Status'' = Inr (JInt 1)
   \<and> (\<exists>w'. related_row (ex_env (ex_server (ex_problems (JInt 42)) created_ok ok_status failed_status)) ex_cfg
              (ex_layer [ex_done] []) (ex_table [ex_comment ''g1'']) (JStr ''GlobalID'') (JStr ''parentid'')
              (ex_comment ''g1'') [] (ex_world (ex_layer [] []) (ex_table [])) = (Inr [], w'))"
proof -
  let ?c = "ex_comment ''g1''"
  let ?L = "ex_layer [ex_done] []"
  let ?T = "ex_table [?c]"
  let ?E = "ex_env (ex_server (ex_problems (JInt 42)) created_ok ok_status failed_status)"
  let ?W = "ex_world (ex_layer [] []) (ex_table [])"
  let ?C = "copy_comments ?E ?c ex_done (tablefields ex_cfg) (ids ex_cfg) ?W"
  have h1: "lookup (attributes ?c) (objectIdField ?L) = Inr (JInt 5)" by code_simp
  have h2: "get_parent ?L (JStr ''GlobalID'') ?c (JStr ''parentid'') = Inr ex_done"
    by (simp add: get_parent_def lookup_key_def lookup_def ex_comment_def query_eq_def ex_layer_def
          ex_done_def sql_eq_def field_name_def py_str_def)
  have h3: "copy_attachments ?E ?T (attachment_list ?T (JInt 5)) (JInt 5)
              (lookup (attributes ex_done) (snd (ids ex_cfg))) ?W = (Inr (), ?W)"
    by (simp add: ex_table_def)
  have s: "fst ?C = Inr failed_status" by code_simp
  then obtain w2 where h4: "?C = (Inr failed_status, w2)" by (cases ?C) auto
  have h5: "status_payload failed_status" by code_simp
  have st: "getitem failed_status ''Status'' = Inr (JInt 1)" by code_simp
  from comment_status_decides_flag [OF h1 h2 h3 h4 h5, of "[]"] obtain st' ups' w' where
    a: "getitem failed_status ''Status'' = Inr st'"
    and b: "related_row ?E ex_cfg ?L ?T (JStr ''GlobalID'') (JStr ''parentid'') ?c [] ?W = (Inr ups', w')"
    and c: "(ups' = []) = (st' \<noteq> JInt 0)"
    by blast
  from a st have "st' = JInt 1" by simp
  with c have "ups' = []" by simp
  with b h1 h2 s h5 st show ?thesis by blast
qed

subsection \<open>C8: the submission payload\<close>

text \<open>
  C8 says that the payload holds, for each configured pair, the string form of the
  source attribute under the external field name, the geometry under \<^verbatim>\<open>X\<close> and
  \<^verbatim>\<open>Y\<close>, and the problem-type id under the type field. The payload is one dictionary
  filled in that order, so a later assignment replaces an earlier one under the same
  key: with the field map \<^verbatim>\<open>[["X","desc"]]\<close> the payload has the geometry's x under
  \<^verbatim>\<open>X\<close>, not the string form of \<^verbatim>\<open>desc\<close>.
\<close>

theorem external_field_named_X_is_overwritten:
  "created_value
     (last (calls (snd (submit_to_cw (ex_env (ex_server (ex_problems (JInt 42)) created_ok ok_status ok_status))
                     (ex_report (JStr ''Y'') (JStr ''pothole'')) ex_vocab [(''X'', ''desc'')] (JInt 1)
                     (probtypes ex_cfg) (ex_world (ex_layer [] []) (ex_table []))))))
     ''X'' = Some (JInt 10)
   \<and> attributes (ex_report (JStr ''Y'') (JStr ''pothole'')) ''desc'' = Some (JStr ''deep hole'')"
  by code_simp

text \<open>
  C8 as amended: when the external field names of the field map, \<^verbatim>\<open>X\<close>, \<^verbatim>\<open>Y\<close> and
  the type field are pairwise different, every mapped source attribute exists and the
  geometry has \<^verbatim>\<open>x\<close> and \<^verbatim>\<open>y\<close>, then for every record whose problem type resolves
  in the vocabulary \<^verbatim>\<open>submit_to_cw\<close> makes exactly one Create call, whose payload has
  the string form of each source attribute under its external field name, the geometry's
  x and y under \<^verbatim>\<open>X\<close> and \<^verbatim>\<open>Y\<close>, and the resolved integer id under the type field.
\<close>

theorem payload_of_resolved_record:
  assumes ty: "attributes row (snd tf) = Some (JStr s)" and res: "d (py_upper s) = Some sid"
    and names: "distinct (map fst flds @ [''X'', ''Y'', fst tf])"
    and src: "\<forall>fs \<in> set flds. attributes row (snd fs) \<noteq> None"
    and gx: "getitem (geometry row) ''x'' = Inr x" and gy: "getitem (geometry row) ''y'' = Inr y"
  shows "\<exists>values. calls (snd (submit_to_cw e row (ProbDict d) flds oid tf w)) = calls w @ [Create (cw_token w) values]
          \<and> values (fst tf) = Some (JInt sid)
          \<and> values ''X'' = Some x \<and> values ''Y'' = Some y
          \<and> (\<forall>c a. (c, a) \<in> set flds \<longrightarrow> (\<exists>v. attributes row a = Some v \<and> values c = Some (JStr (py_str v))))"
proof -
  from copy_fields_result [OF src, of Map.empty] names obtain vals where
    cf: "copy_fields flds (attributes row) Map.empty = Inr vals"
    and new: "\<forall>c a. (c, a) \<in> set flds \<longrightarrow> (\<exists>v. attributes row a = Some v \<and> vals c = Some (JStr (py_str v)))"
    by auto
  let ?payload = "vals(''X'' \<mapsto> x, ''Y'' \<mapsto> y, fst tf \<mapsto> JInt sid)"
  have bv: "build_values row flds tf sid = Inr ?payload" using cf gx gy by (simp add: build_values_def)
  have c: "calls (snd (submit_to_cw e row (ProbDict d) flds oid tf w)) = calls w @ [Create (cw_token w) ?payload]"
    using problem_sid_resolved [of "attributes row" tf s d sid oid, OF ty res] bv
    by (simp add: submit_to_cw_def get_response_def split: sum.splits)
  have "\<forall>c a. (c, a) \<in> set flds \<longrightarrow> (\<exists>v. attributes row a = Some v \<and> ?payload c = Some (JStr (py_str v)))"
  proof (intro allI impI)
    fix c a assume m: "(c, a) \<in> set flds"
    then have "c \<in> fst ` set flds" by force
    moreover from names have "fst ` set flds \<inter> {''X'', ''Y'', fst tf} = {}" by auto
    ultimately have "c \<noteq> ''X''" "c \<noteq> ''Y''" "c \<noteq> fst tf" by blast+
    with new m show "\<exists>v. attributes row a = Some v \<and> ?payload c = Some (JStr (py_str v))" by simp
  qed
  moreover from names have "?payload ''X'' = Some x" "?payload ''Y'' = Some y" "?payload (fst tf) = Some (JInt sid)"
    by auto
  ultimately show ?thesis using c by blast
qed

theorem payload_of_resolved_record_witness:
  "attributes (ex_report (JStr ''Y'') (JStr ''pothole'')) (snd (probtypes ex_cfg)) = Some (JStr ''pothole'')
   \<and> [''POTHOLE'' \<mapsto> (42::int)] (py_upper ''pothole'') = Some 42
   \<and> distinct (map fst (layerfields ex_cfg) @ [''X'', ''Y'', fst (probtypes ex_cfg)])
   \<and> (\<exists>values.
        calls (snd (submit_to_cw (ex_env (ex_server (ex_problems (JInt 42)) created_ok ok_status ok_status))
                 (ex_report (JStr ''Y'') (JStr ''pothole'')) (ProbDict [''POTHOLE'' \<mapsto> 42]) (layerfields ex_cfg) (JInt 1)
                 (probtypes ex_cfg) (ex_world (ex_layer [] []) (ex_table []))))
          = [Create (JStr []) values]
      \<and> values ''ProblemSid'' = Some (JInt 42) \<and> values ''Comments'' = Some (JStr ''deep hole'')
      \<and> values ''X'' = Some (JInt 10) \<and> values ''Y'' = Some (JInt 20))"
proof -
  let ?r = "ex_report (JStr ''Y'') (JStr ''pothole'')"
  let ?E = "ex_env (ex_server (ex_problems (JInt 42)) created_ok ok_status ok_status)"
  let ?W = "ex_world (ex_layer [] []) (ex_table [])"
  let ?d = "[''POTHOLE'' \<mapsto> (42::int)]"
  have h1: "attributes ?r (snd (probtypes ex_cfg)) = Some (JStr ''pothole'')" by code_simp
  have h2: "?d (py_upper ''pothole'') = Some 42" by code_simp
  have h3: "distinct (map fst (layerfields ex_cfg) @ [''X'', ''Y'', fst (probtypes ex_cfg)])" by code_simp
  have h4: "\<forall>fs \<in> set (layerfields ex_cfg). attributes ?r (snd fs) \<noteq> None"
    by (simp add: ex_cfg_def ex_report_def)
  have h5: "getitem (geometry ?r) ''x'' = Inr (JInt 10)" by code_simp
  have h6: "getitem (geometry ?r) ''y'' = Inr (JInt 20)" by code_simp
  have c: "calls ?W = []" "cw_token ?W = JStr []" "fst (probtypes ex_cfg) = ''ProblemSid''"
    "(''Comments'', ''desc'') \<in> set (layerfields ex_cfg)"
    "attributes ?r ''desc'' = Some (JStr ''deep hole'')" "py_str (JStr ''deep hole'') = ''deep hole''"
    by (simp_all add: ex_world_def ex_cfg_def ex_report_def py_str_def)
  from payload_of_resolved_record [where d = "[''POTHOLE'' \<mapsto> (42::int)]" and s = "''pothole''" and e = ?E
         and oid = "JInt 1" and w = ?W, OF h1 h2 h3 h4 h5 h6] obtain payload where
    v: "calls (snd (submit_to_cw ?E ?r (ProbDict ?d) (layerfields ex_cfg) (JInt 1) (probtypes ex_cfg) ?W))
          = [Create (JStr []) payload]"
      "payload ''ProblemSid'' = Some (JInt 42)" "payload ''X'' = Some (JInt 10)" "payload ''Y'' = Some (JInt 20)"
      and a: "\<forall>c a. (c, a) \<in> set (layerfields ex_cfg) \<longrightarrow> (\<exists>v. attributes ?r a = Some v \<and> payload c = Some (JStr (py_str v)))"
    by (auto simp: c)
  from a c(4,5,6) have "payload ''Comments'' = Some (JStr ''deep hole'')" by fastforce
  with v h1 h2 h3 show ?thesis by blast
qed

subsection \<open>C9: what the write-back changes\<close>

text \<open>
  C9: for a record whose submission returned a request identifier, the update that the
  step queues is the freshly queried record with two assignments: the flag field (to the
  "off" value) and the external-id attribute (to the identifier). Every other attribute
  and the geometry are those of the queried record. Writing the queue back deletes
  nothing: the stored records afterwards carry the same object ids, in the same order.
\<close>

theorem write_back_changes_two_attributes:
  assumes oid: "lookup (attributes row) (objectIdField lyr) = Inr oid"
    and sub: "submit_to_cw e row pt (layerfields cfg) oid (probtypes cfg) w = (Inr rid, w1)"
    and ok: "\<not> is_warning rid"
    and step: "report_row e cfg pt lyr row ups w = (Inr ups', w')"
  shows "\<exists>row_orig others.
           query_eq lyr (objectIdField lyr) oid = row_orig # others
         \<and> ups' = ups @ [flag_row cfg row_orig rid]
         \<and> (\<forall>k. k \<noteq> fc_flag cfg \<and> k \<noteq> snd (ids cfg) \<longrightarrow>
               attributes (flag_row cfg row_orig rid) k = attributes row_orig k)
         \<and> geometry (flag_row cfg row_orig rid) = geometry row_orig
         \<and> attributes (flag_row cfg row_orig rid) (snd (ids cfg)) = Some rid
         \<and> (fc_flag cfg \<noteq> snd (ids cfg) \<longrightarrow>
               attributes (flag_row cfg row_orig rid) (fc_flag cfg) = Some (flag_off cfg))
         \<and> (\<forall>what w2. map (\<lambda>f. attributes f (objectIdField lyr)) (features (fst (apply_edits what lyr ups' w2)))
                        = map (\<lambda>f. attributes f (objectIdField lyr)) (features lyr))"
proof -
  from step oid sub ok obtain row_orig others where
    q: "query_eq lyr (objectIdField lyr) oid = row_orig # others"
    and u: "ups' = ups @ [flag_row cfg row_orig rid]"
    by (auto simp: report_row_def split: sum.splits prod.splits list.splits)
  have "\<forall>what w2. map (\<lambda>f. attributes f (objectIdField lyr)) (features (fst (apply_edits what lyr ups' w2)))
                        = map (\<lambda>f. attributes f (objectIdField lyr)) (features lyr)"
    by (simp add: apply_edits_features fold_apply_update_oids)
  with q u show ?thesis by (auto simp: flag_row_def)
qed

theorem write_back_changes_two_attributes_witness:
  "lookup (attributes (ex_report (JStr ''Y'') (JStr ''pothole''))) (objectIdField (ex_layer [ex_report (JStr ''Y'') (JStr ''pothole'')] []))
     = Inr (JInt 1)
   \<and> fst (submit_to_cw (ex_env (ex_server (ex_problems (JInt 42)) created_ok ok_status ok_status))
            (ex_report (JStr ''Y'') (JStr ''pothole'')) ex_vocab (layerfields ex_cfg) (JInt 1) (probtypes ex_cfg)
            (ex_world (ex_layer [] []) (ex_table []))) = Inr (JInt 77)
   \<and> \<not> is_warning (JInt 77)
   \<and> (\<exists>ups' w' row_orig.
         report_row (ex_env (ex_server (ex_problems (JInt 42)) created_ok ok_status ok_status)) ex_cfg ex_vocab
           (ex_layer [ex_report (JStr ''Y'') (JStr ''pothole'')] []) (ex_report (JStr ''Y'') (JStr ''pothole'')) []
           (ex_world (ex_layer [] []) (ex_table [])) = (Inr ups', w')
       \<and> ups' = [flag_row ex_cfg row_orig (JInt 77)]
       \<and> attributes (flag_row ex_cfg row_orig (JInt 77)) ''desc'' = attributes row_orig ''desc''
       \<and> attributes (flag_row ex_cfg row_orig (JInt 77)) ''cwid'' = Some (JInt 77)
       \<and> attributes (flag_row ex_cfg row_orig (JInt 77)) ''flag'' = Some (JStr ''N''))"
proof -
  let ?r = "ex_report (JStr ''Y'') (JStr ''pothole'')"
  let ?L = "ex_layer [?r] []"
  let ?E = "ex_env (ex_server (ex_problems (JInt 42)) created_ok ok_status ok_status)"
  let ?W = "ex_world (ex_layer [] []) (ex_table [])"
  have h1: "lookup (attributes ?r) (objectIdField ?L) = Inr (JInt 1)" by code_simp
  have s: "fst (submit_to_cw ?E ?r ex_vocab (layerfields ex_cfg) (JInt 1) (probtypes ex_cfg) ?W) = Inr (JInt 77)"
    by code_simp
  then obtain w1 where h2: "submit_to_cw ?E ?r ex_vocab (layerfields ex_cfg) (JInt 1) (probtypes ex_cfg) ?W = (Inr (JInt 77), w1)"
    by (cases "submit_to_cw ?E ?r ex_vocab (layerfields ex_cfg) (JInt 1) (probtypes ex_cfg) ?W") auto
  have h3: "\<not> is_warning (JInt 77)" by code_simp
  have "case report_row ?E ex_cfg ex_vocab ?L ?r [] ?W of (Inl ex, w') \<Rightarrow> False | (Inr ups', w') \<Rightarrow> True"
    by code_simp
  then obtain ups' w' where h4: "report_row ?E ex_cfg ex_vocab ?L ?r [] ?W = (Inr ups', w')"
    by (auto split: prod.splits sum.splits)
  have c: "fc_flag ex_cfg = ''flag''" "snd (ids ex_cfg) = ''cwid''" "flag_off ex_cfg = JStr ''N''"
    by (simp_all add: ex_cfg_def)
  from write_back_changes_two_attributes [OF h1 h2 h3 h4] obtain row_orig where
    u: "ups' = [] @ [flag_row ex_cfg row_orig (JInt 77)]"
    and k: "\<forall>k. k \<noteq> fc_flag ex_cfg \<and> k \<noteq> snd (ids ex_cfg) \<longrightarrow>
               attributes (flag_row ex_cfg row_orig (JInt 77)) k = attributes row_orig k"
    and i: "attributes (flag_row ex_cfg row_orig (JInt 77)) (snd (ids ex_cfg)) = Some (JInt 77)"
    and f: "fc_flag ex_cfg \<noteq> snd (ids ex_cfg) \<longrightarrow>
               attributes (flag_row ex_cfg row_orig (JInt 77)) (fc_flag ex_cfg) = Some (flag_off ex_cfg)"
    by blast
  from u have u': "ups' = [flag_row ex_cfg row_orig (JInt 77)]" by simp
  from k have k': "attributes (flag_row ex_cfg row_orig (JInt 77)) ''desc'' = attributes row_orig ''desc''"
    by (simp add: c)
  from i have i': "attributes (flag_row ex_cfg row_orig (JInt 77)) ''cwid'' = Some (JInt 77)" by (simp add: c)
  from f have f': "attributes (flag_row ex_cfg row_orig (JInt 77)) ''flag'' = Some (JStr ''N'')" by (simp add: c)
  from h1 s h3 h4 u' k' i' f' show ?thesis by blast
qed

subsection \<open>C10: a related record without a parent\<close>

text \<open>
  C10: when the foreign-key value of a related record matches no source record,
  \<^verbatim>\<open>get_parent\<close> takes element 0 of an empty list and raises IndexError. The loop
  over the related records stops there, in the state in which it reached the record: the
  records after it are not processed, and the phase ends with the exception instead of
  the batch write-back, so the updates queued before it are not written either.
\<close>

theorem unmatched_parent_stops_related_phase:
  assumes oid: "lookup (attributes record) (objectIdField lyr) = Inr rel_oid"
    and fk: "lookup_key (attributes record) fkey_fld = Inr fk"
    and none: "query_eq lyr (field_name pkey_fld) fk = []"
    and key: "first_key_field rellyr = Inr fkey_fld"
    and q: "query_null rellyr (fc_flag cfg) = before @ record # after"
    and reach: "related_rows e cfg lyr rellyr pkey_fld fkey_fld before [] w = (Inr ups0, w0)"
  shows "get_parent lyr pkey_fld record fkey_fld = Inl (IndexError ''list index out of range'')
       \<and> related_rows e cfg lyr rellyr pkey_fld fkey_fld (record # after) ups0 w0
           = (Inl (IndexError ''list index out of range''), w0)
       \<and> process_related e cfg lyr pkey_fld rellyr w = (Inl (IndexError ''list index out of range''), w0)"
proof -
  have p: "get_parent lyr pkey_fld record fkey_fld = Inl (IndexError ''list index out of range'')"
    using fk none by (simp add: get_parent_def)
  have r: "related_row e cfg lyr rellyr pkey_fld fkey_fld record ups0 w0
             = (Inl (IndexError ''list index out of range''), w0)"
    using oid p by (simp add: related_row_def)
  then have l: "related_rows e cfg lyr rellyr pkey_fld fkey_fld (record # after) ups0 w0
           = (Inl (IndexError ''list index out of range''), w0)"
    by simp
  have "process_related e cfg lyr pkey_fld rellyr w = (Inl (IndexError ''list index out of range''), w0)"
    using key q reach l by (simp add: process_related_def related_rows_append)
  with p l show ?thesis by simp
qed

theorem unmatched_parent_stops_related_phase_witness:
  "lookup (attributes (ex_comment ''g9'')) (objectIdField (ex_layer [ex_done] [])) = Inr (JInt 5)
   \<and> lookup_key (attributes (ex_comment ''g9'')) (JStr ''parentid'') = Inr (JStr ''g9'')
   \<and> query_eq (ex_layer [ex_done] []) (field_name (JStr ''GlobalID'')) (JStr ''g9'') = []
   \<and> first_key_field (ex_table [ex_comment ''g9'', ex_comment ''g1'']) = Inr (JStr ''parentid'')
   \<and> get_parent (ex_layer [ex_done] []) (JStr ''GlobalID'') (ex_comment ''g9'') (JStr ''parentid'')
       = Inl (IndexError ''list index out of range'')
   \<and> process_related (ex_env (ex_server (ex_problems (JInt 42)) created_ok ok_status ok_status)) ex_cfg
        (ex_layer [ex_done] []) (JStr ''GlobalID'') (ex_table [ex_comment ''g9'', ex_comment ''g1''])
        (ex_world (ex_layer [] []) (ex_table []))
       = (Inl (IndexError ''list index out of range''), ex_world (ex_layer [] []) (ex_table []))"
proof -
  let ?c = "ex_comment ''g9''"
  let ?L = "ex_layer [ex_done] []"
  let ?T = "ex_table [ex_comment ''g9'', ex_comment ''g1'']"
  let ?E = "ex_env (ex_server (ex_problems (JInt 42)) created_ok ok_status ok_status)"
  let ?W = "ex_world (ex_layer [] []) (ex_table [])"
  have h1: "lookup (attributes ?c) (objectIdField ?L) = Inr (JInt 5)" by code_simp
  have h2: "lookup_key (attributes ?c) (JStr ''parentid'') = Inr (JStr ''g9'')" by code_simp
  have h3: "query_eq ?L (field_name (JStr ''GlobalID'')) (JStr ''g9'') = []"
    by (simp add: query_eq_def ex_layer_def ex_done_def sql_eq_def field_name_def py_str_def)
  have h4: "first_key_field ?T = Inr (JStr ''parentid'')" by code_simp
  have h5: "query_null ?T (fc_flag ex_cfg) = [] @ ?c # [ex_comment ''g1'']"
    by (simp add: query_null_def ex_table_def ex_comment_def ex_cfg_def)
  have h6: "related_rows ?E ex_cfg ?L ?T (JStr ''GlobalID'') (JStr ''parentid'') [] [] ?W = (Inr [], ?W)" by simp
  note th = unmatched_parent_stops_related_phase [OF h1 h2 h3 h4 h5 h6]
  from th h1 h2 h3 h4 show ?thesis by blast
qed

end
